theory Spec2Isabelle
  imports Main "HOL-Library.Sublist"
begin

section \<open>The runtime around the writer\<close>

text \<open>
  The writer of \<^verbatim>\<open>index.js\<close> is one stateful object that calls the file system module
  (\<^verbatim>\<open>fs\<close>), the event emitter it inherits from, \<^verbatim>\<open>process.nextTick\<close>, \<^verbatim>\<open>setTimeout\<close> and
  \<^verbatim>\<open>atomic-sleep\<close>. None of these is part of the repository, so this section fixes how
  they are read:
  \<^item> a JavaScript string is the list of its UTF-16 code units and a \<^verbatim>\<open>Buffer\<close> is the list
    of its bytes, both \<open>nat list\<close>; \<^verbatim>\<open>.length\<close> is \<open>length\<close>;
  \<^item> blocking calls (\<^verbatim>\<open>writeSync\<close>, \<^verbatim>\<open>fsyncSync\<close>, \<^verbatim>\<open>openSync\<close>, \<^verbatim>\<open>mkdirSync\<close>) ask an
    oracle in the environment for the result of the i-th call and log what happened;
  \<^item> deferred calls (\<^verbatim>\<open>fs.write\<close>, \<^verbatim>\<open>fs.fsync\<close>, \<^verbatim>\<open>fs.close\<close>, \<^verbatim>\<open>fs.open\<close>, \<^verbatim>\<open>fs.mkdir\<close>,
    \<^verbatim>\<open>nextTick\<close>, \<^verbatim>\<open>setTimeout\<close>) are logged as submitted; their callbacks are the
    functions of the model that the scheduler enters later. A deferred call is taken to
    accept its arguments and to report every failure through its callback; since the
    file system module may refuse a negative descriptor at once, what is proved about
    the boolean of a deferred write is stated for a descriptor that is set. The effects
    \<open>MkdirSync p\<close> and \<open>FsMkdirThenOpen p\<close> name the file \<open>p\<close> whose directory is made
    (\<^verbatim>\<open>path.dirname\<close> is not spelled out);
  \<^item> listeners registered by the user only observe: an emitted event is logged, and the
    listeners the writer registers on itself (\<^verbatim>\<open>once('ready', ...)\<close>, the flush callbacks)
    are run by the model.
\<close>

type_synonym content = "nat list"

datatype js_error = Error string | SysError string | TypeError

fun err_code :: "js_error \<Rightarrow> string option" where
  "err_code (SysError c) = Some c"
| "err_code (Error m) = None"
| "err_code TypeError = None"

datatype content_mode = Utf8 | BufferMode

subsection \<open>UTF-8 encoding of a string of UTF-16 code units\<close>

definition is_high :: "nat \<Rightarrow> bool" where
  "is_high c = (55296 \<le> c \<and> c < 56320)"

definition is_low :: "nat \<Rightarrow> bool" where
  "is_low c = (56320 \<le> c \<and> c < 57344)"

definition enc_cp :: "nat \<Rightarrow> nat list" where
  "enc_cp c =
     (if c < 128 then [c]
      else if c < 2048 then [192 + c div 64, 128 + c mod 64]
      else if c < 65536 then [224 + c div 4096, 128 + (c div 64) mod 64, 128 + c mod 64]
      else [240 + c div 262144, 128 + (c div 4096) mod 64, 128 + (c div 64) mod 64,
            128 + c mod 64])"

fun utf8 :: "content \<Rightarrow> content" where
  "utf8 [] = []"
| "utf8 [c] = (if is_high c \<or> is_low c then enc_cp 65533 else enc_cp c)"
| "utf8 (h # l # cs) =
     (if is_high h \<and> is_low l
        then enc_cp (65536 + (h - 55296) * 1024 + (l - 56320)) @ utf8 cs
      else if is_high h \<or> is_low h then enc_cp 65533 @ utf8 (l # cs)
      else enc_cp h @ utf8 (l # cs))"

definition encode :: "content_mode \<Rightarrow> content \<Rightarrow> content" where
  "encode m buf = (case m of Utf8 \<Rightarrow> utf8 buf | BufferMode \<Rightarrow> buf)"

subsection \<open>Events, deferred calls and the log\<close>

datatype event =
    EvReady | EvWrite int | EvDrain | EvDrop content | EvError js_error | EvFinish | EvClose

datatype fsync_k = KCloseWrapped | KFlushCb nat
datatype close_k = KDone | KEmitError
datatype tick = TickEmitReady | TickEmitDrain | TickEmitErrorIfListened js_error

datatype effect =
    Emit event
  | WriteSync int content
  | WriteSyncFailed int js_error
  | FsyncSync int
  | FsyncSyncFailed int js_error
  | MkdirSync string
  | MkdirSyncFailed string js_error
  | OpenSync string string "nat option" int
  | OpenSyncFailed string string "nat option" js_error
  | Sleep nat
  | FsWrite int content content_mode
  | FsFsync int fsync_k
  | FsClose int close_k
  | FsOpen string string "nat option"
  | FsMkdirThenOpen string string "nat option"
  | SetTimeoutFsWrite nat
  | NextTick tick
  | CallCb nat "js_error option"

datatype write_result = Accept nat | Fail js_error

record env =
  write_results :: "nat \<Rightarrow> write_result"
  fsync_results :: "nat \<Rightarrow> js_error option"
  open_results :: "nat \<Rightarrow> js_error + int"
  mkdir_results :: "nat \<Rightarrow> js_error option"
  n_writes :: nat
  n_fsyncs :: nat
  n_opens :: nat
  n_mkdirs :: nat
  trace :: "effect list"

definition log :: "effect \<Rightarrow> env \<Rightarrow> env" where
  "log x e = e\<lparr>trace := trace e @ [x]\<rparr>"

text \<open>
  \<^verbatim>\<open>fs.writeSync(fd, buf[, 'utf8'])\<close>: the i-th blocking write either fails, or the
  descriptor takes at most \<open>k\<close> of the encoded bytes; the call returns how many bytes it
  took.
\<close>

definition fs_writeSync ::
  "int \<Rightarrow> content \<Rightarrow> content_mode \<Rightarrow> env \<Rightarrow> (js_error + nat) \<times> env" where
  "fs_writeSync d buf m e =
     (let e1 = e\<lparr>n_writes := n_writes e + 1\<rparr> in
      case write_results e (n_writes e) of
        Fail er \<Rightarrow> (Inl er, log (WriteSyncFailed d er) e1)
      | Accept k \<Rightarrow>
          (let bytes = encode m buf; n = min k (length bytes)
           in (Inr n, log (WriteSync d (take n bytes)) e1)))"

definition fs_fsyncSync :: "int \<Rightarrow> env \<Rightarrow> js_error option \<times> env" where
  "fs_fsyncSync d e =
     (let e1 = e\<lparr>n_fsyncs := n_fsyncs e + 1\<rparr> in
      case fsync_results e (n_fsyncs e) of
        Some er \<Rightarrow> (Some er, log (FsyncSyncFailed d er) e1)
      | None \<Rightarrow> (None, log (FsyncSync d) e1))"

definition fs_mkdirSync :: "string \<Rightarrow> env \<Rightarrow> js_error option \<times> env" where
  "fs_mkdirSync path e =
     (let e1 = e\<lparr>n_mkdirs := n_mkdirs e + 1\<rparr> in
      case mkdir_results e (n_mkdirs e) of
        Some er \<Rightarrow> (Some er, log (MkdirSyncFailed path er) e1)
      | None \<Rightarrow> (None, log (MkdirSync path) e1))"

definition fs_openSync ::
  "string \<Rightarrow> string \<Rightarrow> nat option \<Rightarrow> env \<Rightarrow> (js_error + int) \<times> env" where
  "fs_openSync path flags md e =
     (let e1 = e\<lparr>n_opens := n_opens e + 1\<rparr> in
      case open_results e (n_opens e) of
        Inl er \<Rightarrow> (Inl er, log (OpenSyncFailed path flags md er) e1)
      | Inr d \<Rightarrow> (Inr d, log (OpenSync path flags md d) e1))"

text \<open>The bytes the descriptor has taken so far, in order.\<close>

fun delivered :: "effect list \<Rightarrow> content" where
  "delivered [] = []"
| "delivered (WriteSync d bytes # xs) = bytes @ delivered xs"
| "delivered (x # xs) = delivered xs"

definition js_slice :: "int \<Rightarrow> content \<Rightarrow> content" where
  "js_slice n xs = (if 0 \<le> n then drop (nat n) xs else drop (length xs - nat (- n)) xs)"

section \<open>The writer\<close>

datatype ready_cb = CbReopen "string option" | CbEnd | CbActualClose | CbCloseOld int

record sonic =
  p_len :: int
  fd :: int
  p_bufs :: "content list"
  p_bufsB :: "content list list"
  p_lens :: "int list"
  p_writing :: bool
  p_ending :: bool
  p_reopening :: bool
  p_opening :: bool
  p_asyncDrainScheduled :: bool
  p_hwm :: int
  file_path :: "string option"
  destroyed :: bool
  minLength :: int
  maxLength :: int
  maxWrite :: int
  sync :: bool
  writable :: bool
  p_fsync :: bool
  append_flag :: bool
  mode :: "nat option"
  retryEAGAIN :: "js_error \<Rightarrow> int \<Rightarrow> int \<Rightarrow> bool"
  mkdir :: bool
  contentMode :: content_mode
  p_writingBuf :: content
  ready_once :: "ready_cb list"
  flush_waiters :: "nat list"
  error_listeners :: nat
  drain_listeners :: nat

text \<open>
  The fields are those the constructor assigns, an underscore written \<open>p_\<close>. JavaScript
  keeps strings (utf8 mode) or arrays of Buffers (buffer mode) in the one field \<^verbatim>\<open>_bufs\<close>;
  the record has a field for each representation, \<open>p_bufs\<close> and \<open>p_bufsB\<close>.
  \<open>contentMode\<close> stands for the methods the constructor installs
  (\<^verbatim>\<open>write\<close>/\<^verbatim>\<open>writeBuffer\<close>, \<^verbatim>\<open>_actualWrite\<close>, ...). The last four fields are the state
  of the event emitter: the writer's own \<^verbatim>\<open>once('ready')\<close> listeners in order, the flush
  callbacks waiting for \<^verbatim>\<open>drain\<close> or \<^verbatim>\<open>error\<close>, and how many listeners the user has on
  \<^verbatim>\<open>error\<close> and \<^verbatim>\<open>drain\<close>.
\<close>

datatype 'r outcome = Return 'r sonic env | Throw js_error sonic env | Timeout

definition BUSY_WRITE_TIMEOUT :: nat where
  "BUSY_WRITE_TIMEOUT = 100"

definition MAX_WRITE :: int where
  "MAX_WRITE = 16 * 1024"

definition retryable :: "js_error \<Rightarrow> bool" where
  "retryable er = (err_code er = Some ''EAGAIN'' \<or> err_code er = Some ''EBUSY'')"

subsection \<open>Emitting\<close>

text \<open>
  \<^verbatim>\<open>emit('error', err)\<close> throws \<open>err\<close> when nobody listens; otherwise the flush callbacks
  waiting on the writer get the error (\<^verbatim>\<open>onError\<close>) and stop waiting for \<^verbatim>\<open>drain\<close>.
\<close>

definition emit_error :: "js_error \<Rightarrow> sonic \<Rightarrow> env \<Rightarrow> unit outcome" where
  "emit_error er s e =
     (if error_listeners s = 0 \<and> flush_waiters s = [] then Throw er s e
      else Return () (s\<lparr>flush_waiters := []\<rparr>)
             (e\<lparr>trace := trace e @ Emit (EvError er) #
                  map (\<lambda>cb. CallCb cb (Some er)) (flush_waiters s)\<rparr>))"

text \<open>
  \<^verbatim>\<open>emit('drain')\<close>: each waiting flush callback runs \<^verbatim>\<open>onDrain\<close>, which fsyncs first
  unless the writer already fsyncs after every write.
\<close>

definition emit_drain :: "sonic \<Rightarrow> env \<Rightarrow> unit outcome" where
  "emit_drain s e =
     Return () (s\<lparr>flush_waiters := []\<rparr>)
       (e\<lparr>trace := trace e @ Emit EvDrain #
            map (\<lambda>cb. if \<not> p_fsync s then FsFsync (fd s) (KFlushCb cb) else CallCb cb None)
              (flush_waiters s)\<rparr>)"

definition emitDrain :: "sonic \<Rightarrow> env \<Rightarrow> unit outcome" where
  "emitDrain s e =
     (if \<not> (drain_listeners s > 0 \<or> flush_waiters s \<noteq> []) then Return () s e
      else emit_drain (s\<lparr>p_asyncDrainScheduled := False\<rparr>) e)"

subsection \<open>Closing\<close>

definition actualClose :: "sonic \<Rightarrow> env \<Rightarrow> unit outcome" where
  "actualClose s e =
     (if fd s = - 1 then Return () (s\<lparr>ready_once := ready_once s @ [CbActualClose]\<rparr>) e
      else Return () (s\<lparr>destroyed := True, p_bufs := [], p_bufsB := [], p_lens := []\<rparr>)
             (log (FsFsync (fd s) KCloseWrapped) e))"

definition done_cb :: "js_error option \<Rightarrow> sonic \<Rightarrow> env \<Rightarrow> unit outcome" where
  "done_cb err s e =
     (case err of
        Some er \<Rightarrow> emit_error er s e
      | None \<Rightarrow>
          Return () s
            (log (Emit EvClose) (if p_ending s \<and> \<not> p_writing s then log (Emit EvFinish) e else e)))"

definition closeWrapped :: "sonic \<Rightarrow> env \<Rightarrow> unit outcome" where
  "closeWrapped s e =
     (if fd s \<noteq> 1 \<and> fd s \<noteq> 2 then Return () s (log (FsClose (fd s) KDone) e)
      else done_cb None s e)"

definition destroy :: "sonic \<Rightarrow> env \<Rightarrow> unit outcome" where
  "destroy s e = (if destroyed s then Return () s e else actualClose s e)"

subsection \<open>Dispatch: \<^verbatim>\<open>actualWrite\<close>, \<^verbatim>\<open>release\<close>, \<^verbatim>\<open>reopen\<close>, \<^verbatim>\<open>openFile\<close>, \<^verbatim>\<open>end\<close>\<close>

definition mergeBuf :: "content list \<Rightarrow> int option \<Rightarrow> content" where
  "mergeBuf bufs len =
     (if length bufs = 0 then []
      else if length bufs = 1 then hd bufs
      else (case len of
              None \<Rightarrow> concat bufs
            | Some n \<Rightarrow> take (nat n) (concat bufs) @ replicate (nat n - length (concat bufs)) 0))"

text \<open>
  The \<^verbatim>\<open>do ... while\<close> loop of \<^verbatim>\<open>release\<close> in blocking mode: write what is left of the
  chunk in flight until nothing is left. A failed write leaves the loop as an exception.
\<close>

fun write_loop :: "nat \<Rightarrow> sonic \<Rightarrow> env \<Rightarrow> unit outcome" where
  "write_loop 0 s e = Timeout"
| "write_loop (Suc k) s e =
     (case fs_writeSync (fd s) (p_writingBuf s) (contentMode s) e of
        (Inl er, e1) \<Rightarrow> Throw er s e1
      | (Inr n, e1) \<Rightarrow>
          (let s1 = s\<lparr>p_len := p_len s - int n,
                      p_writingBuf := js_slice (int n) (p_writingBuf s)\<rparr>
           in if length (p_writingBuf s1) \<noteq> 0 then write_loop k s1 e1 else Return () s1 e1))"

text \<open>
  \<^verbatim>\<open>actualWrite\<close>, \<^verbatim>\<open>actualWriteBuffer\<close>, \<^verbatim>\<open>release\<close>, \<^verbatim>\<open>reopen\<close>, \<^verbatim>\<open>openFile\<close>, its callback
  \<^verbatim>\<open>fileOpened\<close> and \<^verbatim>\<open>end\<close> call each other. They are the cases of one primitive
  recursion \<open>run\<close> on the depth of calls: the first argument bounds that depth
  (\<open>Timeout\<close> when it is used up), since in blocking mode a descriptor that keeps
  answering \<^verbatim>\<open>EAGAIN\<close> keeps the writer retrying for ever. \<open>RunReady n\<close> is
  \<^verbatim>\<open>emit('ready')\<close> running the first \<open>n\<close> of the writer's own \<^verbatim>\<open>once('ready')\<close>
  listeners. Each function then gets its own name, and its equation is proved below.
\<close>

datatype call =
    ActualWrite
  | ActualWriteBuffer
  | Release "js_error option" int
  | Reopen "string option"
  | OpenFile string
  | FileOpened string "js_error option" int
  | EndWriter
  | RunReady nat

primrec run :: "nat \<Rightarrow> call \<Rightarrow> sonic \<Rightarrow> env \<Rightarrow> unit outcome" where
  "run 0 c s e = Timeout"
| "run (Suc k) c s e =
  (case c of
     ActualWrite \<Rightarrow>
     (let s1 = (if p_writingBuf s \<noteq> [] then s\<lparr>p_writing := True\<rparr>
                else (case p_bufs s of
                        [] \<Rightarrow> s\<lparr>p_writing := True, p_writingBuf := []\<rparr>
                      | b # bs \<Rightarrow> s\<lparr>p_writing := True, p_writingBuf := b, p_bufs := bs\<rparr>))
      in if sync s1 then
           (case fs_writeSync (fd s1) (p_writingBuf s1) Utf8 e of
              (Inl er, e1) \<Rightarrow> run k (Release (Some er) 0) s1 e1
            | (Inr written, e1) \<Rightarrow>
                (case run k (Release None (int written)) s1 e1 of
                   Throw er s2 e2 \<Rightarrow> run k (Release (Some er) 0) s2 e2
                 | r \<Rightarrow> r))
         else Return () s1 (log (FsWrite (fd s1) (p_writingBuf s1) Utf8) e))
   | ActualWriteBuffer \<Rightarrow>
     (let s0 = s\<lparr>p_writing := True\<rparr> in
      if length (p_writingBuf s0) = 0 \<and> p_bufsB s0 = [] then Throw TypeError s0 e
      else
        (let s1 = (if length (p_writingBuf s0) \<noteq> 0 then s0
                   else s0\<lparr>p_writingBuf :=
                             mergeBuf (hd (p_bufsB s0))
                               (case p_lens s0 of [] \<Rightarrow> None | l # ls \<Rightarrow> Some l),
                           p_bufsB := tl (p_bufsB s0), p_lens := tl (p_lens s0)\<rparr>)
         in if sync s1 then
              (case fs_writeSync (fd s1) (p_writingBuf s1) BufferMode e of
                 (Inl er, e1) \<Rightarrow> run k (Release (Some er) 0) s1 e1
               | (Inr written, e1) \<Rightarrow>
                   (case run k (Release None (int written)) s1 e1 of
                      Throw er s2 e2 \<Rightarrow> run k (Release (Some er) 0) s2 e2
                    | r \<Rightarrow> r))
            else Return () s1 (log (FsWrite (fd s1) (p_writingBuf s1) BufferMode) e)))
   | Release err n \<Rightarrow>
     (case err of
        Some er \<Rightarrow>
          (if retryable er \<and>
              retryEAGAIN s er (int (length (p_writingBuf s)))
                (p_len s - int (length (p_writingBuf s)))
           then
             (if sync s then
                (case run k (Release None 0) s (log (Sleep BUSY_WRITE_TIMEOUT) e) of
                   Throw er2 s2 e2 \<Rightarrow> run k (Release (Some er2) 0) s2 e2
                 | r \<Rightarrow> r)
              else Return () s (log (SetTimeoutFsWrite BUSY_WRITE_TIMEOUT) e))
           else emit_error er (s\<lparr>p_writing := False\<rparr>) e)
      | None \<Rightarrow>
          (let e1 = log (Emit (EvWrite n)) e;
               s1 = s\<lparr>p_len := (if p_len s - n < 0 then 0 else p_len s - n),
                       p_writingBuf := js_slice n (p_writingBuf s)\<rparr>
           in if length (p_writingBuf s1) \<noteq> 0 \<and> \<not> sync s1
              then Return () s1 (log (FsWrite (fd s1) (p_writingBuf s1) (contentMode s1)) e1)
              else
                (case (if length (p_writingBuf s1) \<noteq> 0 then write_loop k s1 e1
                       else Return () s1 e1) of
                   Timeout \<Rightarrow> Timeout
                 | Throw er s2 e2 \<Rightarrow> run k (Release (Some er) 0) s2 e2
                 | Return u s2 e2 \<Rightarrow>
                     (case (if p_fsync s2 then fs_fsyncSync (fd s2) e2 else (None, e2)) of
                        (Some er, e3) \<Rightarrow> Throw er s2 e3
                      | (None, e3) \<Rightarrow>
                          (if p_reopening s2
                             then run k (Reopen None)
                                    (s2\<lparr>p_writing := False, p_reopening := False\<rparr>) e3
                           else if p_len s2 > minLength s2 then
                             (case contentMode s2 of
                                Utf8 \<Rightarrow> run k ActualWrite s2 e3
                              | BufferMode \<Rightarrow> run k ActualWriteBuffer s2 e3)
                           else if p_ending s2 then
                             (if p_len s2 > 0 then
                                (case contentMode s2 of
                                   Utf8 \<Rightarrow> run k ActualWrite s2 e3
                                 | BufferMode \<Rightarrow> run k ActualWriteBuffer s2 e3)
                              else actualClose (s2\<lparr>p_writing := False\<rparr>) e3)
                           else
                             (let s3 = s2\<lparr>p_writing := False\<rparr> in
                              if sync s3 then
                                (if \<not> p_asyncDrainScheduled s3
                                   then Return () (s3\<lparr>p_asyncDrainScheduled := True\<rparr>)
                                          (log (NextTick TickEmitDrain) e3)
                                 else Return () s3 e3)
                              else emit_drain s3 e3))))))
   | Reopen f \<Rightarrow>
     (if destroyed s then Throw (Error ''SonicBoom destroyed'') s e
      else if p_opening s then Return () (s\<lparr>ready_once := ready_once s @ [CbReopen f]\<rparr>) e
      else if p_ending s then Return () s e
      else if file_path s = None \<or> file_path s = Some [] then
        Throw (Error ''Unable to reopen a file descriptor, you must pass a file to SonicBoom'') s e
      else
        (let s1 = s\<lparr>p_reopening := True\<rparr> in
         if p_writing s1 then Return () s1 e
         else run k
                (OpenFile
                   (case f of
                      None \<Rightarrow> the (file_path s1)
                    | Some p \<Rightarrow> if p = [] then the (file_path s1) else p))
                (s1\<lparr>ready_once := ready_once s1 @ [CbCloseOld (fd s1)]\<rparr>) e))
   | OpenFile path \<Rightarrow>
     (let s1 = s\<lparr>p_opening := True, p_writing := True, p_asyncDrainScheduled := False\<rparr>;
          flags = (if append_flag s1 then ''a'' else ''w'')
      in if sync s1 then
           (case (if mkdir s1 then fs_mkdirSync path e else (None, e)) of
              (Some er, e1) \<Rightarrow>
                (case run k (FileOpened path (Some er) 0) s1 e1 of
                   Return u s2 e2 \<Rightarrow> Throw er s2 e2
                 | r \<Rightarrow> r)
            | (None, e1) \<Rightarrow>
                (case fs_openSync path flags (mode s1) e1 of
                   (Inl er, e2) \<Rightarrow>
                     (case run k (FileOpened path (Some er) 0) s1 e2 of
                        Return u s3 e3 \<Rightarrow> Throw er s3 e3
                      | r \<Rightarrow> r)
                 | (Inr d, e2) \<Rightarrow>
                     (case run k (FileOpened path None d) s1 e2 of
                        Throw er s3 e3 \<Rightarrow>
                          (case run k (FileOpened path (Some er) 0) s3 e3 of
                             Return u s4 e4 \<Rightarrow> Throw er s4 e4
                           | r \<Rightarrow> r)
                      | r \<Rightarrow> r)))
         else if mkdir s1 then Return () s1 (log (FsMkdirThenOpen path flags (mode s1)) e)
         else Return () s1 (log (FsOpen path flags (mode s1)) e))
   | FileOpened path err d \<Rightarrow>
     (case err of
        Some er \<Rightarrow>
          (let s1 = s\<lparr>p_reopening := False, p_writing := False, p_opening := False\<rparr> in
           if sync s1 then Return () s1 (log (NextTick (TickEmitErrorIfListened er)) e)
           else emit_error er s1 e)
      | None \<Rightarrow>
          (let s1 = s\<lparr>fd := d, file_path := Some path, p_reopening := False,
                      p_opening := False, p_writing := False\<rparr>
           in case (if sync s1 then Return () s1 (log (NextTick TickEmitReady) e)
                    else run k (RunReady (length (ready_once s1))) s1 (log (Emit EvReady) e)) of
                Return u s2 e2 \<Rightarrow>
                  (if p_reopening s2 then Return () s2 e2
                   else if \<not> p_writing s2 \<and> p_len s2 > minLength s2 \<and> \<not> destroyed s2 then
                     (case contentMode s2 of
                        Utf8 \<Rightarrow> run k ActualWrite s2 e2
                      | BufferMode \<Rightarrow> run k ActualWriteBuffer s2 e2)
                   else Return () s2 e2)
              | r \<Rightarrow> r))
   | EndWriter \<Rightarrow>
     (if destroyed s then Throw (Error ''SonicBoom destroyed'') s e
      else if p_opening s then Return () (s\<lparr>ready_once := ready_once s @ [CbEnd]\<rparr>) e
      else if p_ending s then Return () s e
      else
        (let s1 = s\<lparr>p_ending := True\<rparr> in
         if p_writing s1 then Return () s1 e
         else if p_len s1 > 0 \<and> fd s1 \<ge> 0 then
           (case contentMode s1 of
              Utf8 \<Rightarrow> run k ActualWrite s1 e
            | BufferMode \<Rightarrow> run k ActualWriteBuffer s1 e)
         else actualClose s1 e))
   | RunReady n \<Rightarrow>
     (if n = 0 then Return () s e
      else (case ready_once s of
              [] \<Rightarrow> Return () s e
            | cb # rest \<Rightarrow>
                (let s1 = s\<lparr>ready_once := rest\<rparr> in
                 case (case cb of
                         CbReopen f \<Rightarrow> run k (Reopen f) s1 e
                       | CbEnd \<Rightarrow> run k EndWriter s1 e
                       | CbActualClose \<Rightarrow> actualClose s1 e
                       | CbCloseOld old \<Rightarrow>
                           Return () s1
                             (if old \<noteq> fd s1 then log (FsClose old KEmitError) e else e)) of
                   Return u s2 e2 \<Rightarrow> run k (RunReady (n - 1)) s2 e2
                 | r \<Rightarrow> r))))"

definition actualWrite :: "nat \<Rightarrow> sonic \<Rightarrow> env \<Rightarrow> unit outcome" where
  "actualWrite k = run k ActualWrite"

definition actualWriteBuffer :: "nat \<Rightarrow> sonic \<Rightarrow> env \<Rightarrow> unit outcome" where
  "actualWriteBuffer k = run k ActualWriteBuffer"

definition release :: "nat \<Rightarrow> js_error option \<Rightarrow> int \<Rightarrow> sonic \<Rightarrow> env \<Rightarrow> unit outcome" where
  "release k err n = run k (Release err n)"

definition reopen :: "nat \<Rightarrow> string option \<Rightarrow> sonic \<Rightarrow> env \<Rightarrow> unit outcome" where
  "reopen k f = run k (Reopen f)"

definition openFile :: "nat \<Rightarrow> string \<Rightarrow> sonic \<Rightarrow> env \<Rightarrow> unit outcome" where
  "openFile k path = run k (OpenFile path)"

definition fileOpened ::
  "nat \<Rightarrow> string \<Rightarrow> js_error option \<Rightarrow> int \<Rightarrow> sonic \<Rightarrow> env \<Rightarrow> unit outcome" where
  "fileOpened k path err d = run k (FileOpened path err d)"

definition endWriter :: "nat \<Rightarrow> sonic \<Rightarrow> env \<Rightarrow> unit outcome" where
  "endWriter k = run k EndWriter"

definition run_ready :: "nat \<Rightarrow> nat \<Rightarrow> sonic \<Rightarrow> env \<Rightarrow> unit outcome" where
  "run_ready k n = run k (RunReady n)"

text \<open>\<^verbatim>\<open>this._actualWrite()\<close>: the method the constructor installed.\<close>

definition call_actualWrite :: "nat \<Rightarrow> sonic \<Rightarrow> env \<Rightarrow> unit outcome" where
  "call_actualWrite k s e =
     (case contentMode s of
        Utf8 \<Rightarrow> actualWrite k s e
      | BufferMode \<Rightarrow> actualWriteBuffer k s e)"

subsection \<open>Enqueueing: \<^verbatim>\<open>write\<close> and \<^verbatim>\<open>writeBuffer\<close>\<close>

text \<open>
  \<^verbatim>\<open>write\<close> is an Isabelle keyword, so the utf8 method is \<open>writeUtf8\<close>. Both return the
  backpressure boolean, or throw. In \<^verbatim>\<open>writeBuffer\<close> the test reads \<^verbatim>\<open>lens[lens.length - 1]\<close>;
  when \<^verbatim>\<open>_lens\<close> is empty that is \<^verbatim>\<open>lens[-1]\<close>, which is \<^verbatim>\<open>undefined\<close> (or \<^verbatim>\<open>NaN\<close> after an
  earlier such call), the sum is \<^verbatim>\<open>NaN\<close> and the comparison is false: the data joins the
  tail chunk, and \<^verbatim>\<open>lens[-1] += data.length\<close> stores \<^verbatim>\<open>NaN\<close> under the key \<^verbatim>\<open>-1\<close>, which adds
  no element to the array.
\<close>

definition writeUtf8 :: "nat \<Rightarrow> content \<Rightarrow> sonic \<Rightarrow> env \<Rightarrow> bool outcome" where
  "writeUtf8 k data s e =
     (if destroyed s then Throw (Error ''SonicBoom destroyed'') s e
      else
        (let len = p_len s + int (length data); bufs = p_bufs s in
         if maxLength s \<noteq> 0 \<and> len > maxLength s
           then Return (p_len s < p_hwm s) s (log (Emit (EvDrop data)) e)
         else
           (let s1 = (if length bufs = 0 \<or>
                         int (length (last bufs)) + int (length data) > maxWrite s
                      then s\<lparr>p_bufs := bufs @ [data]\<rparr>
                      else s\<lparr>p_bufs := butlast bufs @ [last bufs @ data]\<rparr>);
                s2 = s1\<lparr>p_len := len\<rparr>
            in case (if \<not> p_writing s2 \<and> p_len s2 \<ge> minLength s2
                     then call_actualWrite k s2 e else Return () s2 e) of
                 Return u s3 e3 \<Rightarrow> Return (p_len s3 < p_hwm s3) s3 e3
               | Throw er s3 e3 \<Rightarrow> Throw er s3 e3
               | Timeout \<Rightarrow> Timeout)))"

definition writeBuffer :: "nat \<Rightarrow> content \<Rightarrow> sonic \<Rightarrow> env \<Rightarrow> bool outcome" where
  "writeBuffer k data s e =
     (if destroyed s then Throw (Error ''SonicBoom destroyed'') s e
      else
        (let len = p_len s + int (length data); bufs = p_bufsB s; lens = p_lens s in
         if maxLength s \<noteq> 0 \<and> len > maxLength s
           then Return (p_len s < p_hwm s) s (log (Emit (EvDrop data)) e)
         else
           (let s1 = (if length bufs = 0 \<or>
                         (lens \<noteq> [] \<and> last lens + int (length data) > maxWrite s)
                      then s\<lparr>p_bufsB := bufs @ [[data]], p_lens := lens @ [int (length data)]\<rparr>
                      else s\<lparr>p_bufsB := butlast bufs @ [last bufs @ [data]],
                             p_lens := (if lens = [] then []
                                        else butlast lens @ [last lens + int (length data)])\<rparr>);
                s2 = s1\<lparr>p_len := len\<rparr>
            in case (if \<not> p_writing s2 \<and> p_len s2 \<ge> minLength s2
                     then call_actualWrite k s2 e else Return () s2 e) of
                 Return u s3 e3 \<Rightarrow> Return (p_len s3 < p_hwm s3) s3 e3
               | Throw er s3 e3 \<Rightarrow> Throw er s3 e3
               | Timeout \<Rightarrow> Timeout)))"

subsection \<open>Flushing\<close>

text \<open>
  What a caller can pass as \<^verbatim>\<open>cb\<close>: nothing, \<^verbatim>\<open>null\<close>, a function (named by a number) or
  some other value. Registering \<^verbatim>\<open>once('drain', onDrain)\<close> fires the writer's own
  \<^verbatim>\<open>newListener\<close> handler, which clears the guard of the scheduled drain.
\<close>

datatype cb_arg = CbUndefined | CbNull | CbFn nat | CbOther

definition callFlushCallbackOnDrain :: "nat \<Rightarrow> sonic \<Rightarrow> sonic" where
  "callFlushCallbackOnDrain cb s =
     s\<lparr>flush_waiters := flush_waiters s @ [cb], p_asyncDrainScheduled := False\<rparr>"

definition flush :: "nat \<Rightarrow> cb_arg \<Rightarrow> sonic \<Rightarrow> env \<Rightarrow> unit outcome" where
  "flush k cb s e =
     (if cb = CbOther then Throw (Error ''flush cb must be a function'') s e
      else if destroyed s then
        (case cb of
           CbFn c \<Rightarrow> Return () s (log (CallCb c (Some (Error ''SonicBoom destroyed''))) e)
         | _ \<Rightarrow> Throw (Error ''SonicBoom destroyed'') s e)
      else if minLength s \<le> 0 then
        Return () s (case cb of CbFn c \<Rightarrow> log (CallCb c None) e | _ \<Rightarrow> e)
      else
        (let s1 = (case cb of CbFn c \<Rightarrow> callFlushCallbackOnDrain c s | _ \<Rightarrow> s) in
         if p_writing s1 then Return () s1 e
         else call_actualWrite k
                (if length (p_bufs s1) = 0 then s1\<lparr>p_bufs := p_bufs s1 @ [[]]\<rparr> else s1) e))"

definition flushBuffer :: "nat \<Rightarrow> cb_arg \<Rightarrow> sonic \<Rightarrow> env \<Rightarrow> unit outcome" where
  "flushBuffer k cb s e =
     (if cb = CbOther then Throw (Error ''flush cb must be a function'') s e
      else if destroyed s then
        (case cb of
           CbFn c \<Rightarrow> Return () s (log (CallCb c (Some (Error ''SonicBoom destroyed''))) e)
         | _ \<Rightarrow> Throw (Error ''SonicBoom destroyed'') s e)
      else if minLength s \<le> 0 then
        Return () s (case cb of CbFn c \<Rightarrow> log (CallCb c None) e | _ \<Rightarrow> e)
      else
        (let s1 = (case cb of CbFn c \<Rightarrow> callFlushCallbackOnDrain c s | _ \<Rightarrow> s) in
         if p_writing s1 then Return () s1 e
         else call_actualWrite k
                (if length (p_bufsB s1) = 0
                   then s1\<lparr>p_bufsB := p_bufsB s1 @ [[]], p_lens := p_lens s1 @ [0]\<rparr>
                 else s1) e))"

text \<open>
  The \<^verbatim>\<open>while\<close> loop of \<^verbatim>\<open>flushSync\<close>, \<open>buf\<close> its local variable. One round is one
  blocking write; the first argument bounds the number of rounds.
\<close>

fun flushSync_loop :: "nat \<Rightarrow> content \<Rightarrow> sonic \<Rightarrow> env \<Rightarrow> unit outcome" where
  "flushSync_loop 0 buf s e = Timeout"
| "flushSync_loop (Suc k) buf s e =
     (if length (p_bufs s) \<noteq> 0 \<or> buf \<noteq> [] then
        (let buf1 = (if length buf \<le> 0 then hd (p_bufs s) else buf) in
         case fs_writeSync (fd s) buf1 Utf8 e of
           (Inr n, e1) \<Rightarrow>
             (let buf2 = js_slice (int n) buf1;
                  s1 = s\<lparr>p_len := max (p_len s - int n) 0\<rparr>;
                  s2 = (if length buf2 \<le> 0 then s1\<lparr>p_bufs := tl (p_bufs s1)\<rparr> else s1)
              in flushSync_loop k buf2 s2 e1)
         | (Inl er, e1) \<Rightarrow>
             (let shouldRetry = retryable er in
              if shouldRetry \<and>
                 \<not> retryEAGAIN s er (int (length buf1)) (p_len s - int (length buf1))
                then Throw er s e1
              else flushSync_loop k buf1 s (log (Sleep BUSY_WRITE_TIMEOUT) e1)))
      else Return () s e)"

definition flushSync :: "nat \<Rightarrow> sonic \<Rightarrow> env \<Rightarrow> unit outcome" where
  "flushSync k s e =
     (if destroyed s then Throw (Error ''SonicBoom destroyed'') s e
      else if fd s < 0 then Throw (Error ''sonic boom is not ready yet'') s e
      else flushSync_loop k []
             (if \<not> p_writing s \<and> length (p_writingBuf s) > 0
                then s\<lparr>p_bufs := p_writingBuf s # p_bufs s, p_writingBuf := []\<rparr>
              else s) e)"

fun flushBufferSync_loop :: "nat \<Rightarrow> content \<Rightarrow> sonic \<Rightarrow> env \<Rightarrow> unit outcome" where
  "flushBufferSync_loop 0 buf s e = Timeout"
| "flushBufferSync_loop (Suc k) buf s e =
     (if length (p_bufsB s) \<noteq> 0 \<or> length buf \<noteq> 0 then
        (let buf1 = (if length buf \<le> 0
                     then mergeBuf (hd (p_bufsB s))
                            (case p_lens s of [] \<Rightarrow> None | l # ls \<Rightarrow> Some l)
                     else buf) in
         case fs_writeSync (fd s) buf1 BufferMode e of
           (Inr n, e1) \<Rightarrow>
             (let buf2 = js_slice (int n) buf1;
                  s1 = s\<lparr>p_len := max (p_len s - int n) 0\<rparr>;
                  s2 = (if length buf2 \<le> 0
                        then s1\<lparr>p_bufsB := tl (p_bufsB s1), p_lens := tl (p_lens s1)\<rparr>
                        else s1)
              in flushBufferSync_loop k buf2 s2 e1)
         | (Inl er, e1) \<Rightarrow>
             (let shouldRetry = retryable er in
              if shouldRetry \<and>
                 \<not> retryEAGAIN s er (int (length buf1)) (p_len s - int (length buf1))
                then Throw er s e1
              else flushBufferSync_loop k buf1 s (log (Sleep BUSY_WRITE_TIMEOUT) e1)))
      else Return () s e)"

definition flushBufferSync :: "nat \<Rightarrow> sonic \<Rightarrow> env \<Rightarrow> unit outcome" where
  "flushBufferSync k s e =
     (if destroyed s then Throw (Error ''SonicBoom destroyed'') s e
      else if fd s < 0 then Throw (Error ''sonic boom is not ready yet'') s e
      else flushBufferSync_loop k []
             (if \<not> p_writing s \<and> length (p_writingBuf s) > 0
                then s\<lparr>p_bufsB := [p_writingBuf s] # p_bufsB s, p_writingBuf := []\<rparr>
              else s) e)"

subsection \<open>The constructor\<close>

datatype dest = DNum int | DStr string

record opts =
  o_fd :: "dest option"
  o_dest :: "dest option"
  o_minLength :: "int option"
  o_maxLength :: "int option"
  o_maxWrite :: "int option"
  o_sync :: "bool option"
  o_append :: "bool option"
  o_mkdir :: "bool option"
  o_retryEAGAIN :: "(js_error \<Rightarrow> int \<Rightarrow> int \<Rightarrow> bool) option"
  o_fsync :: "bool option"
  o_contentMode :: "string option"
  o_mode :: "nat option"

text \<open>\<^verbatim>\<open>x || d\<close> on an optional number and on an optional boolean.\<close>

definition or_int :: "int option \<Rightarrow> int \<Rightarrow> int" where
  "or_int x d = (case x of None \<Rightarrow> d | Some v \<Rightarrow> if v = 0 then d else v)"

definition or_false :: "bool option \<Rightarrow> bool" where
  "or_false x = (case x of None \<Rightarrow> False | Some b \<Rightarrow> b)"

definition truthy_dest :: "dest option \<Rightarrow> bool" where
  "truthy_dest x =
     (case x of None \<Rightarrow> False | Some (DNum n) \<Rightarrow> n \<noteq> 0 | Some (DStr p) \<Rightarrow> p \<noteq> [])"

text \<open>
  The constructor calls \<^verbatim>\<open>openFile\<close> (line 146) before it assigns \<^verbatim>\<open>this.release\<close>
  (line 154). In deferred mode \<^verbatim>\<open>openFile\<close> only submits the open. In blocking mode it opens
  the file and runs \<^verbatim>\<open>fileOpened\<close> at once, which starts a write when
  \<^verbatim>\<open>_len > minLength\<close>, that is, at this point, when \<^verbatim>\<open>minLength\<close> is negative. The three
  definitions below are \<^verbatim>\<open>_actualWrite\<close>, \<^verbatim>\<open>fileOpened\<close> and \<^verbatim>\<open>openFile\<close> as they run then:
  \<^verbatim>\<open>release\<close> is \<^verbatim>\<open>undefined\<close>, so calling it is a \<^verbatim>\<open>TypeError\<close>, which the \<^verbatim>\<open>catch\<close> clause of
  \<^verbatim>\<open>_actualWrite\<close> raises a second time by calling \<^verbatim>\<open>release(err)\<close>, and \<^verbatim>\<open>fs.write\<close> refuses
  \<^verbatim>\<open>undefined\<close> as its callback with a \<^verbatim>\<open>TypeError\<close>.
\<close>

definition actualWrite_unassigned :: "sonic \<Rightarrow> env \<Rightarrow> unit outcome" where
  "actualWrite_unassigned s e =
     (case contentMode s of
        Utf8 \<Rightarrow>
          (let s1 = (if p_writingBuf s \<noteq> [] then s\<lparr>p_writing := True\<rparr>
                     else (case p_bufs s of
                             [] \<Rightarrow> s\<lparr>p_writing := True, p_writingBuf := []\<rparr>
                           | b # bs \<Rightarrow> s\<lparr>p_writing := True, p_writingBuf := b, p_bufs := bs\<rparr>))
           in if sync s1 then
                (case fs_writeSync (fd s1) (p_writingBuf s1) Utf8 e of
                   (Inl er, e1) \<Rightarrow> Throw TypeError s1 e1
                 | (Inr written, e1) \<Rightarrow> Throw TypeError s1 e1)
              else Throw TypeError s1 e)
      | BufferMode \<Rightarrow>
          (let s0 = s\<lparr>p_writing := True\<rparr> in
           if length (p_writingBuf s0) = 0 \<and> p_bufsB s0 = [] then Throw TypeError s0 e
           else
             (let s1 = (if length (p_writingBuf s0) \<noteq> 0 then s0
                        else s0\<lparr>p_writingBuf :=
                                  mergeBuf (hd (p_bufsB s0))
                                    (case p_lens s0 of [] \<Rightarrow> None | l # ls \<Rightarrow> Some l),
                                p_bufsB := tl (p_bufsB s0), p_lens := tl (p_lens s0)\<rparr>)
              in if sync s1 then
                   (case fs_writeSync (fd s1) (p_writingBuf s1) BufferMode e of
                      (Inl er, e1) \<Rightarrow> Throw TypeError s1 e1
                    | (Inr written, e1) \<Rightarrow> Throw TypeError s1 e1)
                 else Throw TypeError s1 e)))"

definition fileOpened_unassigned ::
  "nat \<Rightarrow> string \<Rightarrow> js_error option \<Rightarrow> int \<Rightarrow> sonic \<Rightarrow> env \<Rightarrow> unit outcome" where
  "fileOpened_unassigned k path err d s e =
     (case err of
        Some er \<Rightarrow>
          (let s1 = s\<lparr>p_reopening := False, p_writing := False, p_opening := False\<rparr> in
           if sync s1 then Return () s1 (log (NextTick (TickEmitErrorIfListened er)) e)
           else emit_error er s1 e)
      | None \<Rightarrow>
          (let s1 = s\<lparr>fd := d, file_path := Some path, p_reopening := False,
                      p_opening := False, p_writing := False\<rparr>
           in case (if sync s1 then Return () s1 (log (NextTick TickEmitReady) e)
                    else run_ready k (length (ready_once s1)) s1 (log (Emit EvReady) e)) of
                Return u s2 e2 \<Rightarrow>
                  (if p_reopening s2 then Return () s2 e2
                   else if \<not> p_writing s2 \<and> p_len s2 > minLength s2 \<and> \<not> destroyed s2
                     then actualWrite_unassigned s2 e2
                   else Return () s2 e2)
              | r \<Rightarrow> r))"

definition openFile_unassigned :: "nat \<Rightarrow> string \<Rightarrow> sonic \<Rightarrow> env \<Rightarrow> unit outcome" where
  "openFile_unassigned k path s e =
     (let s1 = s\<lparr>p_opening := True, p_writing := True, p_asyncDrainScheduled := False\<rparr>;
          flags = (if append_flag s1 then ''a'' else ''w'')
      in if sync s1 then
           (case (if mkdir s1 then fs_mkdirSync path e else (None, e)) of
              (Some er, e1) \<Rightarrow>
                (case fileOpened_unassigned k path (Some er) 0 s1 e1 of
                   Return u s2 e2 \<Rightarrow> Throw er s2 e2
                 | r \<Rightarrow> r)
            | (None, e1) \<Rightarrow>
                (case fs_openSync path flags (mode s1) e1 of
                   (Inl er, e2) \<Rightarrow>
                     (case fileOpened_unassigned k path (Some er) 0 s1 e2 of
                        Return u s3 e3 \<Rightarrow> Throw er s3 e3
                      | r \<Rightarrow> r)
                 | (Inr d, e2) \<Rightarrow>
                     (case fileOpened_unassigned k path None d s1 e2 of
                        Throw er s3 e3 \<Rightarrow>
                          (case fileOpened_unassigned k path (Some er) 0 s3 e3 of
                             Return u s4 e4 \<Rightarrow> Throw er s4 e4
                           | r \<Rightarrow> r)
                      | r \<Rightarrow> r)))
         else if mkdir s1 then Return () s1 (log (FsMkdirThenOpen path flags (mode s1)) e)
         else Return () s1 (log (FsOpen path flags (mode s1)) e))"

text \<open>
  A number as \<^verbatim>\<open>${...}\<close> prints it in an error message, for the integers the model keeps
  in \<^verbatim>\<open>maxWrite\<close>; \<open>dquote\<close> is the double quote.
\<close>

fun digits :: "nat \<Rightarrow> string" where
  "digits n =
     (if n < 10 then [''0123456789'' ! n]
      else digits (n div 10) @ [''0123456789'' ! (n mod 10)])"

definition show_int :: "int \<Rightarrow> string" where
  "show_int i = (if i < 0 then CHR ''-'' # digits (nat (- i)) else digits (nat i))"

definition dquote :: char where
  "dquote = CHR 0x22"

definition SonicBoom :: "nat \<Rightarrow> opts \<Rightarrow> env \<Rightarrow> unit outcome" where
  "SonicBoom k opt e =
     (let d = (if truthy_dest (o_fd opt) then o_fd opt else o_dest opt);
          s = \<lparr>p_len = 0, fd = - 1, p_bufs = [], p_bufsB = [], p_lens = [],
               p_writing = False, p_ending = False, p_reopening = False, p_opening = False,
               p_asyncDrainScheduled = False,
               p_hwm = max (or_int (o_minLength opt) 0) 16387,
               file_path = None, destroyed = False,
               minLength = or_int (o_minLength opt) 0,
               maxLength = or_int (o_maxLength opt) 0,
               maxWrite = or_int (o_maxWrite opt) MAX_WRITE,
               sync = or_false (o_sync opt), writable = True,
               p_fsync = or_false (o_fsync opt),
               append_flag = (case o_append opt of None \<Rightarrow> True | Some b \<Rightarrow> b),
               mode = o_mode opt,
               retryEAGAIN = (case o_retryEAGAIN opt of
                                None \<Rightarrow> (\<lambda>er n m. True) | Some f \<Rightarrow> f),
               mkdir = or_false (o_mkdir opt),
               contentMode = (if o_contentMode opt = Some ''buffer'' then BufferMode else Utf8),
               p_writingBuf = [], ready_once = [], flush_waiters = [],
               error_listeners = 0, drain_listeners = 0\<rparr>
      in if o_contentMode opt \<noteq> Some ''buffer'' \<and> o_contentMode opt \<noteq> None \<and>
            o_contentMode opt \<noteq> Some ''utf8''
           then Throw (Error (''SonicBoom supports '' @ [dquote] @ ''utf8'' @ [dquote] @
                              '' and '' @ [dquote] @ ''buffer'' @ [dquote] @
                              '', but passed '' @ the (o_contentMode opt))) s e
         else
           (case (case d of
                    Some (DNum n) \<Rightarrow> Return () (s\<lparr>fd := n\<rparr>) (log (NextTick TickEmitReady) e)
                  | Some (DStr p) \<Rightarrow> openFile_unassigned k p s e
                  | None \<Rightarrow>
                      Throw (Error ''SonicBoom supports only file descriptors and files'') s e) of
              Return u s1 e1 \<Rightarrow>
                (if minLength s1 \<ge> maxWrite s1
                   then Throw (Error (''minLength should be smaller than maxWrite ('' @
                                      show_int (maxWrite s1) @ '')'')) s1 e1
                 else Return () s1 e1)
            | r \<Rightarrow> r))"

text \<open>\<^verbatim>\<open>sonic.on(name, listener)\<close> by the user, with the writer's \<^verbatim>\<open>newListener\<close> handler.\<close>

definition on_listener :: "string \<Rightarrow> sonic \<Rightarrow> sonic" where
  "on_listener name s =
     (if name = ''drain''
        then s\<lparr>drain_listeners := drain_listeners s + 1, p_asyncDrainScheduled := False\<rparr>
      else if name = ''error'' then s\<lparr>error_listeners := error_listeners s + 1\<rparr>
      else s)"

text \<open>An environment whose calls follow a script and then a default.\<close>

definition script :: "'a list \<Rightarrow> 'a \<Rightarrow> nat \<Rightarrow> 'a" where
  "script xs d i = (if i < length xs then xs ! i else d)"

definition env0 :: "write_result list \<Rightarrow> js_error option list \<Rightarrow> env" where
  "env0 ws fs =
     \<lparr>write_results = script ws (Accept 1000000), fsync_results = script fs None,
      open_results = (\<lambda>i. Inr (3 + int i)), mkdir_results = (\<lambda>i. None),
      n_writes = 0, n_fsyncs = 0, n_opens = 0, n_mkdirs = 0, trace = []\<rparr>"

definition opts0 :: opts where
  "opts0 =
     \<lparr>o_fd = None, o_dest = None, o_minLength = None, o_maxLength = None, o_maxWrite = None,
      o_sync = None, o_append = None, o_mkdir = None, o_retryEAGAIN = None, o_fsync = None,
      o_contentMode = None, o_mode = None\<rparr>"

text \<open>The writer the constructor builds from default options, before the destination is set.\<close>

definition sonic0 :: sonic where
  "sonic0 =
     \<lparr>p_len = 0, fd = - 1, p_bufs = [], p_bufsB = [], p_lens = [],
      p_writing = False, p_ending = False, p_reopening = False, p_opening = False,
      p_asyncDrainScheduled = False, p_hwm = 16387, file_path = None, destroyed = False,
      minLength = 0, maxLength = 0, maxWrite = 16384, sync = False, writable = True,
      p_fsync = False, append_flag = True, mode = None, retryEAGAIN = (\<lambda>er n m. True),
      mkdir = False, contentMode = Utf8, p_writingBuf = [], ready_once = [],
      flush_waiters = [], error_listeners = 0, drain_listeners = 0\<rparr>"

subsection \<open>What the dispatch keeps\<close>

text \<open>
  \<open>keeps P r\<close>: the writer an outcome leaves behind satisfies \<open>P\<close>, whether the call
  returned or threw. \<open>same_config c s\<close>: the configuration fields of \<open>s\<close> are those of
  \<open>c\<close>. \<open>chunks_within W s\<close>: every pending chunk holds at most \<open>W\<close> units (UTF-16 code
  units in utf8 mode, where a unit can take up to three bytes; bytes in buffer mode, the
  Buffers of a chunk together), and \<^verbatim>\<open>_lens\<close> holds the sizes of the chunks.
\<close>

definition keeps :: "(sonic \<Rightarrow> bool) \<Rightarrow> 'a outcome \<Rightarrow> bool" where
  "keeps P r = (case r of Return x s e \<Rightarrow> P s | Throw er s e \<Rightarrow> P s | Timeout \<Rightarrow> True)"

definition same_config :: "sonic \<Rightarrow> sonic \<Rightarrow> bool" where
  "same_config c s =
     (p_hwm s = p_hwm c \<and> minLength s = minLength c \<and> maxLength s = maxLength c \<and>
      maxWrite s = maxWrite c \<and> sync s = sync c \<and> p_fsync s = p_fsync c \<and>
      append_flag s = append_flag c \<and> mode s = mode c \<and> mkdir s = mkdir c \<and>
      contentMode s = contentMode c \<and> retryEAGAIN s = retryEAGAIN c \<and>
      writable s = writable c)"

definition chunks_within :: "int \<Rightarrow> sonic \<Rightarrow> bool" where
  "chunks_within W s =
     (list_all (\<lambda>b. int (length b) \<le> W) (p_bufs s) \<and>
      list_all (\<lambda>x. int (length (concat x)) \<le> W) (p_bufsB s) \<and>
      p_lens s = map (\<lambda>x. int (length (concat x))) (p_bufsB s))"

definition engine_inv :: "sonic \<Rightarrow> bool \<Rightarrow> int \<Rightarrow> sonic \<Rightarrow> bool" where
  "engine_inv c B W s = (same_config c s \<and> (B \<longrightarrow> chunks_within W s))"

subsection \<open>What a blocking writer conserves\<close>

text \<open>
  The bytes a writer still holds, in order: the chunk in flight, then the pending
  chunks (\<open>pending\<close>). A writer is \<open>exact\<close> when it is in blocking mode, its length is the
  number of units it holds, \<^verbatim>\<open>_lens\<close> holds the sizes of the chunks, and its content is
  one byte per unit: Buffers, or text of ASCII characters only. \<open>carried T s e\<close>: the
  writer is exact, and the bytes the descriptor has taken followed by the bytes still
  held are \<open>T\<close>. \<open>carried_in\<close> is what each dispatch function needs on entry
  (\<^verbatim>\<open>release(null, n)\<close> is entered after \<open>n\<close> bytes of the chunk in flight were taken);
  \<open>write_all\<close> enqueues a list of data one after the other.
\<close>

definition ascii :: "content \<Rightarrow> bool" where
  "ascii xs = list_all (\<lambda>c. c < 128) xs"

definition queued :: "sonic \<Rightarrow> content" where
  "queued s =
     (case contentMode s of
        Utf8 \<Rightarrow> concat (p_bufs s)
      | BufferMode \<Rightarrow> concat (map concat (p_bufsB s)))"

definition pending :: "sonic \<Rightarrow> content" where
  "pending s = p_writingBuf s @ queued s"

definition exact :: "sonic \<Rightarrow> bool" where
  "exact s =
     (sync s \<and> p_len s = int (length (pending s)) \<and>
      p_lens s = map (\<lambda>x. int (length (concat x))) (p_bufsB s) \<and>
      (contentMode s = BufferMode \<or> ascii (pending s)))"

definition keeps2 :: "(sonic \<Rightarrow> env \<Rightarrow> bool) \<Rightarrow> 'a outcome \<Rightarrow> bool" where
  "keeps2 P r = (case r of Return x s e \<Rightarrow> P s e | Throw er s e \<Rightarrow> P s e | Timeout \<Rightarrow> True)"

definition carried :: "content \<Rightarrow> sonic \<Rightarrow> env \<Rightarrow> bool" where
  "carried T s e = (exact s \<and> delivered (trace e) @ pending s = T)"

definition carried_in :: "content \<Rightarrow> call \<Rightarrow> sonic \<Rightarrow> env \<Rightarrow> bool" where
  "carried_in T cl s e =
     (case cl of
        ActualWrite \<Rightarrow> carried T s e \<and> contentMode s = Utf8
      | ActualWriteBuffer \<Rightarrow> carried T s e \<and> contentMode s = BufferMode
      | Release err n \<Rightarrow>
          (case err of
             Some er \<Rightarrow> carried T s e
           | None \<Rightarrow>
               exact s \<and> 0 \<le> n \<and> nat n \<le> length (p_writingBuf s) \<and>
               delivered (trace e) @ drop (nat n) (pending s) = T)
      | Reopen f \<Rightarrow> carried T s e
      | OpenFile path \<Rightarrow> carried T s e
      | FileOpened path err d \<Rightarrow> carried T s e
      | EndWriter \<Rightarrow> False
      | RunReady n \<Rightarrow> False)"

fun write_all :: "nat \<Rightarrow> content list \<Rightarrow> sonic \<Rightarrow> env \<Rightarrow> unit outcome" where
  "write_all k [] s e = Return () s e"
| "write_all k (d # ds) s e =
     (case (case contentMode s of
              Utf8 \<Rightarrow> writeUtf8 k d s e
            | BufferMode \<Rightarrow> writeBuffer k d s e) of
        Return b s' e' \<Rightarrow> write_all k ds s' e'
      | Throw er s' e' \<Rightarrow> Throw er s' e'
      | Timeout \<Rightarrow> Timeout)"

subsection \<open>What an accepted enqueue buffers\<close>

text \<open>
  \<open>buffered data s\<close> is the writer as lines 287-296 of \<^verbatim>\<open>write\<close> leave it, and
  \<open>bufferedB data s\<close> the writer as lines 319-330 of \<^verbatim>\<open>writeBuffer\<close> leave it, before the
  test that decides on a dispatch: the data has started a new chunk or joined the tail
  chunk, and the length is the prospective length.
\<close>

definition buffered :: "content \<Rightarrow> sonic \<Rightarrow> sonic" where
  "buffered data s =
     (if p_bufs s = [] \<or> int (length (last (p_bufs s))) + int (length data) > maxWrite s
      then s\<lparr>p_bufs := p_bufs s @ [data], p_len := p_len s + int (length data)\<rparr>
      else s\<lparr>p_bufs := butlast (p_bufs s) @ [last (p_bufs s) @ data],
             p_len := p_len s + int (length data)\<rparr>)"

definition bufferedB :: "content \<Rightarrow> sonic \<Rightarrow> sonic" where
  "bufferedB data s =
     (if p_bufsB s = [] \<or>
         (p_lens s \<noteq> [] \<and> last (p_lens s) + int (length data) > maxWrite s)
      then s\<lparr>p_bufsB := p_bufsB s @ [[data]], p_lens := p_lens s @ [int (length data)],
             p_len := p_len s + int (length data)\<rparr>
      else s\<lparr>p_bufsB := butlast (p_bufsB s) @ [last (p_bufsB s) @ [data]],
             p_lens := (if p_lens s = [] then []
                        else butlast (p_lens s) @ [last (p_lens s) + int (length data)]),
             p_len := p_len s + int (length data)\<rparr>)"

subsection \<open>What a blocking dispatch leaves buffered\<close>

text \<open>
  A writer is \<open>calm\<close> when it is in blocking mode, neither reopening nor ending, and
  nobody listens for \<^verbatim>\<open>error\<close> (an emitted error is then raised to the caller).
  \<open>settles r\<close>: the writer is still calm, and if the call returned, it left at most
  \<^verbatim>\<open>minLength\<close> units buffered.
\<close>

definition calm :: "sonic \<Rightarrow> bool" where
  "calm s =
     (sync s \<and> \<not> p_reopening s \<and> \<not> p_ending s \<and> error_listeners s = 0 \<and>
      flush_waiters s = [])"

definition settles :: "'a outcome \<Rightarrow> bool" where
  "settles r =
     (case r of
        Return x s e \<Rightarrow> calm s \<and> p_len s \<le> minLength s
      | Throw er s e \<Rightarrow> calm s
      | Timeout \<Rightarrow> True)"

subsection \<open>What a destroyed writer can still write\<close>

text \<open>
  \<open>from_flight W x\<close>: if the effect \<open>x\<close> is a write, what it writes is taken from the
  chunk \<open>W\<close>: a submitted buffer is a rest of \<open>W\<close>, and the bytes a blocking write
  delivered start the encoding of a rest of \<open>W\<close>. \<open>spent W s e\<close>: the writer is destroyed,
  holds no pending chunk and nothing in flight but a rest of \<open>W\<close>, and every write in the
  log is taken from \<open>W\<close>.
\<close>

definition from_flight :: "content \<Rightarrow> effect \<Rightarrow> bool" where
  "from_flight W x =
     (case x of
        FsWrite d buf m \<Rightarrow> suffix buf W
      | WriteSync d bytes \<Rightarrow>
          list_ex (\<lambda>buf. prefix bytes (utf8 buf) \<or> prefix bytes buf) (suffixes W)
      | _ \<Rightarrow> True)"


subsection \<open>Writers used as examples\<close>

text \<open>
  Each is a state the constructor and a few calls produce (the lemmas of the section
  on reachable examples show how): a deferred and a blocking writer on descriptor 1, the
  latter also in buffer mode; a
  writer holding 480 bytes under a drop threshold of 500; a writer whose file is still
  being opened, empty and holding three bytes; a writer holding one byte below its flush
  threshold; a blocking writer that fsyncs after every write, holding four bytes; a
  deferred writer with the chunk \<^verbatim>\<open>ab\<close> in flight and the chunk \<^verbatim>\<open>cd\<close> pending; and a
  deferred writer of Buffers whose write of four bytes failed, with a listener on
  \<^verbatim>\<open>error\<close> and a retry predicate that refuses.
\<close>

definition fd_writer :: sonic where
  "fd_writer = sonic0\<lparr>fd := 1\<rparr>"

definition sync_writer :: sonic where
  "sync_writer = sonic0\<lparr>fd := 1, sync := True\<rparr>"

definition sync_buffer_writer :: sonic where
  "sync_buffer_writer = sonic0\<lparr>fd := 1, sync := True, contentMode := BufferMode\<rparr>"

definition drop_writer :: sonic where
  "drop_writer =
     sonic0\<lparr>fd := 1, minLength := 1000, maxLength := 500, p_len := 480,
            p_bufs := [replicate 480 97]\<rparr>"

definition opening_writer :: sonic where
  "opening_writer = sonic0\<lparr>p_opening := True, p_writing := True, maxWrite := 4\<rparr>"

definition opening_writer_abc :: sonic where
  "opening_writer_abc = opening_writer\<lparr>p_len := 3, p_bufs := [[97, 98, 99]]\<rparr>"

definition flush_writer :: sonic where
  "flush_writer = sonic0\<lparr>fd := 1, minLength := 10, p_len := 1, p_bufs := [[97]]\<rparr>"

definition fsync_writer :: sonic where
  "fsync_writer =
     sonic0\<lparr>fd := 1, sync := True, p_fsync := True, minLength := 5, maxWrite := 8,
            p_len := 4, p_bufs := [[97, 97, 97, 97]]\<rparr>"

definition stalled_writer :: sonic where
  "stalled_writer =
     sonic0\<lparr>fd := 1, contentMode := BufferMode, maxWrite := 4,
            retryEAGAIN := (\<lambda>er n m. False), error_listeners := 1,
            p_writingBuf := [1, 2, 3, 4], p_len := 4\<rparr>"

definition busy_writer :: sonic where
  "busy_writer =
     sonic0\<lparr>fd := 1, p_writing := True, p_writingBuf := [97, 98], p_len := 4,
            p_bufs := [[99, 100]]\<rparr>"

section \<open>The equations of the dispatch functions\<close>

declare digits.simps [simp del]

lemma actualWrite_0: "actualWrite 0 s e = Timeout"
  by (simp add: actualWrite_def)

lemma actualWrite_Suc:
  "actualWrite (Suc k) s e =
     (let s1 = (if p_writingBuf s \<noteq> [] then s\<lparr>p_writing := True\<rparr>
                else (case p_bufs s of
                        [] \<Rightarrow> s\<lparr>p_writing := True, p_writingBuf := []\<rparr>
                      | b # bs \<Rightarrow> s\<lparr>p_writing := True, p_writingBuf := b, p_bufs := bs\<rparr>))
      in if sync s1 then
           (case fs_writeSync (fd s1) (p_writingBuf s1) Utf8 e of
              (Inl er, e1) \<Rightarrow> release k (Some er) 0 s1 e1
            | (Inr written, e1) \<Rightarrow>
                (case release k None (int written) s1 e1 of
                   Throw er s2 e2 \<Rightarrow> release k (Some er) 0 s2 e2
                 | r \<Rightarrow> r))
         else Return () s1 (log (FsWrite (fd s1) (p_writingBuf s1) Utf8) e))"
  by (simp only: actualWrite_def release_def run.simps call.case)

lemma release_0: "release 0 err n s e = Timeout"
  by (simp add: release_def)

lemma release_Suc:
  "release (Suc k) err n s e =
     (case err of
        Some er \<Rightarrow>
          (if retryable er \<and>
              retryEAGAIN s er (int (length (p_writingBuf s)))
                (p_len s - int (length (p_writingBuf s)))
           then
             (if sync s then
                (case release k None 0 s (log (Sleep BUSY_WRITE_TIMEOUT) e) of
                   Throw er2 s2 e2 \<Rightarrow> release k (Some er2) 0 s2 e2
                 | r \<Rightarrow> r)
              else Return () s (log (SetTimeoutFsWrite BUSY_WRITE_TIMEOUT) e))
           else emit_error er (s\<lparr>p_writing := False\<rparr>) e)
      | None \<Rightarrow>
          (let e1 = log (Emit (EvWrite n)) e;
               s1 = s\<lparr>p_len := (if p_len s - n < 0 then 0 else p_len s - n),
                       p_writingBuf := js_slice n (p_writingBuf s)\<rparr>
           in if length (p_writingBuf s1) \<noteq> 0 \<and> \<not> sync s1
              then Return () s1 (log (FsWrite (fd s1) (p_writingBuf s1) (contentMode s1)) e1)
              else
                (case (if length (p_writingBuf s1) \<noteq> 0 then write_loop k s1 e1
                       else Return () s1 e1) of
                   Timeout \<Rightarrow> Timeout
                 | Throw er s2 e2 \<Rightarrow> release k (Some er) 0 s2 e2
                 | Return u s2 e2 \<Rightarrow>
                     (case (if p_fsync s2 then fs_fsyncSync (fd s2) e2 else (None, e2)) of
                        (Some er, e3) \<Rightarrow> Throw er s2 e3
                      | (None, e3) \<Rightarrow>
                          (if p_reopening s2
                             then reopen k None
                                    (s2\<lparr>p_writing := False, p_reopening := False\<rparr>) e3
                           else if p_len s2 > minLength s2 then call_actualWrite k s2 e3
                           else if p_ending s2 then
                             (if p_len s2 > 0 then call_actualWrite k s2 e3
                              else actualClose (s2\<lparr>p_writing := False\<rparr>) e3)
                           else
                             (let s3 = s2\<lparr>p_writing := False\<rparr> in
                              if sync s3 then
                                (if \<not> p_asyncDrainScheduled s3
                                   then Return () (s3\<lparr>p_asyncDrainScheduled := True\<rparr>)
                                          (log (NextTick TickEmitDrain) e3)
                                 else Return () s3 e3)
                              else emit_drain s3 e3))))))"
  by (simp only: actualWrite_def actualWriteBuffer_def release_def reopen_def
        call_actualWrite_def run.simps call.case)

lemma reopen_0: "reopen 0 f s e = Timeout"
  by (simp add: reopen_def)

lemma reopen_Suc:
  "reopen (Suc k) f s e =
     (if destroyed s then Throw (Error ''SonicBoom destroyed'') s e
      else if p_opening s then Return () (s\<lparr>ready_once := ready_once s @ [CbReopen f]\<rparr>) e
      else if p_ending s then Return () s e
      else if file_path s = None \<or> file_path s = Some [] then
        Throw (Error ''Unable to reopen a file descriptor, you must pass a file to SonicBoom'') s e
      else
        (let s1 = s\<lparr>p_reopening := True\<rparr> in
         if p_writing s1 then Return () s1 e
         else openFile k
                (case f of
                   None \<Rightarrow> the (file_path s1)
                 | Some p \<Rightarrow> if p = [] then the (file_path s1) else p)
                (s1\<lparr>ready_once := ready_once s1 @ [CbCloseOld (fd s1)]\<rparr>) e))"
  by (simp only: reopen_def openFile_def run.simps call.case)

lemma actualWriteBuffer_0: "actualWriteBuffer 0 s e = Timeout"
  by (simp add: actualWriteBuffer_def)

lemma actualWriteBuffer_Suc:
  "actualWriteBuffer (Suc k) s e =
     (let s0 = s\<lparr>p_writing := True\<rparr> in
      if length (p_writingBuf s0) = 0 \<and> p_bufsB s0 = [] then Throw TypeError s0 e
      else
        (let s1 = (if length (p_writingBuf s0) \<noteq> 0 then s0
                   else s0\<lparr>p_writingBuf :=
                             mergeBuf (hd (p_bufsB s0))
                               (case p_lens s0 of [] \<Rightarrow> None | l # ls \<Rightarrow> Some l),
                           p_bufsB := tl (p_bufsB s0), p_lens := tl (p_lens s0)\<rparr>)
         in if sync s1 then
              (case fs_writeSync (fd s1) (p_writingBuf s1) BufferMode e of
                 (Inl er, e1) \<Rightarrow> release k (Some er) 0 s1 e1
               | (Inr written, e1) \<Rightarrow>
                   (case release k None (int written) s1 e1 of
                      Throw er s2 e2 \<Rightarrow> release k (Some er) 0 s2 e2
                    | r \<Rightarrow> r))
            else Return () s1 (log (FsWrite (fd s1) (p_writingBuf s1) BufferMode) e)))"
  by (simp only: actualWriteBuffer_def release_def run.simps call.case)

lemma openFile_0: "openFile 0 path s e = Timeout"
  by (simp add: openFile_def)

lemma openFile_Suc:
  "openFile (Suc k) path s e =
     (let s1 = s\<lparr>p_opening := True, p_writing := True, p_asyncDrainScheduled := False\<rparr>;
          flags = (if append_flag s1 then ''a'' else ''w'')
      in if sync s1 then
           (case (if mkdir s1 then fs_mkdirSync path e else (None, e)) of
              (Some er, e1) \<Rightarrow>
                (case fileOpened k path (Some er) 0 s1 e1 of
                   Return u s2 e2 \<Rightarrow> Throw er s2 e2
                 | r \<Rightarrow> r)
            | (None, e1) \<Rightarrow>
                (case fs_openSync path flags (mode s1) e1 of
                   (Inl er, e2) \<Rightarrow>
                     (case fileOpened k path (Some er) 0 s1 e2 of
                        Return u s3 e3 \<Rightarrow> Throw er s3 e3
                      | r \<Rightarrow> r)
                 | (Inr d, e2) \<Rightarrow>
                     (case fileOpened k path None d s1 e2 of
                        Throw er s3 e3 \<Rightarrow>
                          (case fileOpened k path (Some er) 0 s3 e3 of
                             Return u s4 e4 \<Rightarrow> Throw er s4 e4
                           | r \<Rightarrow> r)
                      | r \<Rightarrow> r)))
         else if mkdir s1 then Return () s1 (log (FsMkdirThenOpen path flags (mode s1)) e)
         else Return () s1 (log (FsOpen path flags (mode s1)) e))"
  by (simp only: openFile_def fileOpened_def run.simps call.case)

lemma fileOpened_0: "fileOpened 0 path err d s e = Timeout"
  by (simp add: fileOpened_def)

lemma fileOpened_Suc:
  "fileOpened (Suc k) path err d s e =
     (case err of
        Some er \<Rightarrow>
          (let s1 = s\<lparr>p_reopening := False, p_writing := False, p_opening := False\<rparr> in
           if sync s1 then Return () s1 (log (NextTick (TickEmitErrorIfListened er)) e)
           else emit_error er s1 e)
      | None \<Rightarrow>
          (let s1 = s\<lparr>fd := d, file_path := Some path, p_reopening := False,
                      p_opening := False, p_writing := False\<rparr>
           in case (if sync s1 then Return () s1 (log (NextTick TickEmitReady) e)
                    else run_ready k (length (ready_once s1)) s1 (log (Emit EvReady) e)) of
                Return u s2 e2 \<Rightarrow>
                  (if p_reopening s2 then Return () s2 e2
                   else if \<not> p_writing s2 \<and> p_len s2 > minLength s2 \<and> \<not> destroyed s2
                     then call_actualWrite k s2 e2
                   else Return () s2 e2)
              | r \<Rightarrow> r))"
  by (simp only: fileOpened_def run_ready_def actualWrite_def actualWriteBuffer_def
        call_actualWrite_def run.simps call.case)

lemma endWriter_0: "endWriter 0 s e = Timeout"
  by (simp add: endWriter_def)

lemma endWriter_Suc:
  "endWriter (Suc k) s e =
     (if destroyed s then Throw (Error ''SonicBoom destroyed'') s e
      else if p_opening s then Return () (s\<lparr>ready_once := ready_once s @ [CbEnd]\<rparr>) e
      else if p_ending s then Return () s e
      else
        (let s1 = s\<lparr>p_ending := True\<rparr> in
         if p_writing s1 then Return () s1 e
         else if p_len s1 > 0 \<and> fd s1 \<ge> 0 then call_actualWrite k s1 e
         else actualClose s1 e))"
  by (simp only: endWriter_def actualWrite_def actualWriteBuffer_def call_actualWrite_def
        run.simps call.case)

lemma run_ready_0: "run_ready 0 n s e = Timeout"
  by (simp add: run_ready_def)

lemma run_ready_Suc:
  "run_ready (Suc k) n s e =
     (if n = 0 then Return () s e
      else (case ready_once s of
              [] \<Rightarrow> Return () s e
            | cb # rest \<Rightarrow>
                (let s1 = s\<lparr>ready_once := rest\<rparr> in
                 case (case cb of
                         CbReopen f \<Rightarrow> reopen k f s1 e
                       | CbEnd \<Rightarrow> endWriter k s1 e
                       | CbActualClose \<Rightarrow> actualClose s1 e
                       | CbCloseOld old \<Rightarrow>
                           Return () s1
                             (if old \<noteq> fd s1 then log (FsClose old KEmitError) e else e)) of
                   Return u s2 e2 \<Rightarrow> run_ready k (n - 1) s2 e2
                 | r \<Rightarrow> r)))"
  by (simp only: run_ready_def reopen_def endWriter_def run.simps call.case)

lemmas eval_defs =
  writeUtf8_def writeBuffer_def call_actualWrite_def fs_writeSync_def fs_fsyncSync_def
  env0_def script_def log_def Let_def encode_def enc_cp_def is_high_def is_low_def
  js_slice_def sonic0_def BUSY_WRITE_TIMEOUT_def MAX_WRITE_def emit_error_def emit_drain_def
  retryable_def flushSync_def flushBufferSync_def actualClose_def destroy_def on_listener_def
  SonicBoom_def opts0_def truthy_dest_def or_int_def or_false_def mergeBuf_def

lemmas example_defs =
  fd_writer_def sync_writer_def sync_buffer_writer_def drop_writer_def opening_writer_def opening_writer_abc_def
  flush_writer_def fsync_writer_def busy_writer_def stalled_writer_def

section \<open>The examples are reachable\<close>

lemma fd_writer_built:
  "SonicBoom k (opts0\<lparr>o_fd := Some (DNum 1)\<rparr>) e =
     Return () fd_writer (log (NextTick TickEmitReady) e)"
  by (simp add: eval_defs example_defs)

lemma sync_writer_built:
  "SonicBoom k (opts0\<lparr>o_fd := Some (DNum 1), o_sync := Some True\<rparr>) e =
     Return () sync_writer (log (NextTick TickEmitReady) e)"
  by (simp add: eval_defs example_defs)

lemma sync_buffer_writer_built:
  "SonicBoom k
     (opts0\<lparr>o_fd := Some (DNum 1), o_sync := Some True, o_contentMode := Some ''buffer''\<rparr>) e =
     Return () sync_buffer_writer (log (NextTick TickEmitReady) e)"
  by (simp add: eval_defs example_defs)

lemma drop_writer_built:
  "SonicBoom k
     (opts0\<lparr>o_fd := Some (DNum 1), o_minLength := Some 1000, o_maxLength := Some 500\<rparr>) e =
     Return () (sonic0\<lparr>fd := 1, minLength := 1000, maxLength := 500\<rparr>)
       (log (NextTick TickEmitReady) e)"
  "writeUtf8 k (replicate 480 97) (sonic0\<lparr>fd := 1, minLength := 1000, maxLength := 500\<rparr>) e =
     Return True drop_writer e"
  by (simp_all add: eval_defs example_defs)

lemma opening_writer_built:
  "SonicBoom (Suc k) (opts0\<lparr>o_dest := Some (DStr ''/var/log/app.log''), o_maxWrite := Some 4\<rparr>) e =
     Return () opening_writer (log (FsOpen ''/var/log/app.log'' ''a'' None) e)"
  "writeUtf8 k [97, 98, 99] opening_writer e = Return True opening_writer_abc e"
  by (simp_all add: eval_defs example_defs openFile_unassigned_def)

lemma flush_writer_built:
  "SonicBoom k (opts0\<lparr>o_fd := Some (DNum 1), o_minLength := Some 10\<rparr>) e =
     Return () (sonic0\<lparr>fd := 1, minLength := 10\<rparr>) (log (NextTick TickEmitReady) e)"
  "writeUtf8 k [97] (sonic0\<lparr>fd := 1, minLength := 10\<rparr>) e = Return True flush_writer e"
  by (simp_all add: eval_defs example_defs)

lemma fsync_writer_built:
  "SonicBoom k
     (opts0\<lparr>o_fd := Some (DNum 1), o_sync := Some True, o_fsync := Some True,
            o_minLength := Some 5, o_maxWrite := Some 8\<rparr>) e =
     Return ()
       (sonic0\<lparr>fd := 1, sync := True, p_fsync := True, minLength := 5, maxWrite := 8\<rparr>)
       (log (NextTick TickEmitReady) e)"
  "writeUtf8 k [97, 97, 97, 97]
     (sonic0\<lparr>fd := 1, sync := True, p_fsync := True, minLength := 5, maxWrite := 8\<rparr>) e =
     Return True fsync_writer e"
  by (simp_all add: eval_defs example_defs)

lemma busy_writer_built:
  "writeUtf8 (Suc k) [97, 98] fd_writer e =
     Return True (fd_writer\<lparr>p_writing := True, p_writingBuf := [97, 98], p_len := 2\<rparr>)
       (log (FsWrite 1 [97, 98] Utf8) e)"
  "writeUtf8 k [99, 100] (fd_writer\<lparr>p_writing := True, p_writingBuf := [97, 98], p_len := 2\<rparr>) e =
     Return True busy_writer e"
  by (simp_all add: eval_defs example_defs actualWrite_Suc)

lemma stalled_writer_built:
  "SonicBoom k
     (opts0\<lparr>o_fd := Some (DNum 1), o_contentMode := Some ''buffer'', o_maxWrite := Some 4,
            o_retryEAGAIN := Some (\<lambda>er n m. False)\<rparr>) e =
     Return () (stalled_writer\<lparr>error_listeners := 0, p_writingBuf := [], p_len := 0\<rparr>)
       (log (NextTick TickEmitReady) e)"
  "on_listener ''error'' (stalled_writer\<lparr>error_listeners := 0, p_writingBuf := [], p_len := 0\<rparr>) =
     stalled_writer\<lparr>p_writingBuf := [], p_len := 0\<rparr>"
  "writeBuffer (Suc k) [1, 2, 3, 4] (stalled_writer\<lparr>p_writingBuf := [], p_len := 0\<rparr>) e =
     Return True (stalled_writer\<lparr>p_writing := True\<rparr>)
       (log (FsWrite 1 [1, 2, 3, 4] BufferMode) e)"
  "release (Suc k) (Some (SysError ''EIO'')) 0 (stalled_writer\<lparr>p_writing := True\<rparr>) e =
     Return () stalled_writer (log (Emit (EvError (SysError ''EIO''))) e)"
  by (simp_all add: eval_defs example_defs actualWriteBuffer_Suc release_Suc)

text \<open>
  A blocking writer on a path cannot be built with a negative \<^verbatim>\<open>minLength\<close>: the file is
  opened, and the write that \<^verbatim>\<open>fileOpened\<close> starts fails because \<^verbatim>\<open>release\<close> is not assigned
  yet.
\<close>

lemma blocking_constructor_negative_minLength:
  "SonicBoom k
     (opts0\<lparr>o_dest := Some (DStr ''/var/log/app.log''), o_sync := Some True,
            o_minLength := Some (- 1)\<rparr>) (env0 [] []) =
     Throw TypeError
       (sonic0\<lparr>fd := 3, file_path := Some ''/var/log/app.log'', sync := True,
              minLength := - 1\<rparr>)
       ((env0 [] [])
          \<lparr>n_opens := 1, n_writes := 1,
           trace := [OpenSync ''/var/log/app.log'' ''a'' None 3, NextTick TickEmitReady,
                     WriteSync 3 [], NextTick (TickEmitErrorIfListened TypeError)]\<rparr>)"
  by (simp add: eval_defs example_defs openFile_unassigned_def fileOpened_unassigned_def
      actualWrite_unassigned_def fs_openSync_def)

lemma constructor_messages:
  "SonicBoom k (opts0\<lparr>o_fd := Some (DNum 1), o_minLength := Some 5, o_maxWrite := Some 4\<rparr>) e =
     Throw (Error ''minLength should be smaller than maxWrite (4)'')
       (sonic0\<lparr>fd := 1, minLength := 5, maxWrite := 4\<rparr>) (log (NextTick TickEmitReady) e)"
  by (simp add: eval_defs show_int_def digits.simps)

section \<open>The dispatch keeps the configuration and the chunk bound\<close>

lemma same_config_upd [simp]:
  "same_config c (s\<lparr>p_len := a1\<rparr>) = same_config c s"
  "same_config c (s\<lparr>fd := a2\<rparr>) = same_config c s"
  "same_config c (s\<lparr>p_bufs := a3\<rparr>) = same_config c s"
  "same_config c (s\<lparr>p_bufsB := a4\<rparr>) = same_config c s"
  "same_config c (s\<lparr>p_lens := a5\<rparr>) = same_config c s"
  "same_config c (s\<lparr>p_writing := a6\<rparr>) = same_config c s"
  "same_config c (s\<lparr>p_ending := a7\<rparr>) = same_config c s"
  "same_config c (s\<lparr>p_reopening := a8\<rparr>) = same_config c s"
  "same_config c (s\<lparr>p_opening := a9\<rparr>) = same_config c s"
  "same_config c (s\<lparr>p_asyncDrainScheduled := a10\<rparr>) = same_config c s"
  "same_config c (s\<lparr>file_path := a11\<rparr>) = same_config c s"
  "same_config c (s\<lparr>destroyed := a12\<rparr>) = same_config c s"
  "same_config c (s\<lparr>p_writingBuf := a13\<rparr>) = same_config c s"
  "same_config c (s\<lparr>ready_once := a14\<rparr>) = same_config c s"
  "same_config c (s\<lparr>flush_waiters := a15\<rparr>) = same_config c s"
  by (simp_all add: same_config_def)

lemma same_config_refl [simp]: "same_config s s"
  by (simp add: same_config_def)

lemma list_all_tl: "list_all P xs \<Longrightarrow> list_all P (tl xs)"
  by (cases xs) simp_all

lemma list_all_butlast: "list_all P xs \<Longrightarrow> list_all P (butlast xs)"
  by (induction xs) auto

lemmas inv_defs = engine_inv_def chunks_within_def list_all_tl map_tl

lemma keeps_simps [simp]:
  "keeps P (Return x s e) = P s" "keeps P (Throw er s e) = P s" "keeps P Timeout = True"
  by (simp_all add: keeps_def)

lemma keeps_outcome:
  "keeps P r \<Longrightarrow> (\<And>u s e. P s \<Longrightarrow> keeps P (f u s e)) \<Longrightarrow>
   (\<And>er s e. P s \<Longrightarrow> keeps P (g er s e)) \<Longrightarrow> keeps P h \<Longrightarrow>
   keeps P (case r of Return u s e \<Rightarrow> f u s e | Throw er s e \<Rightarrow> g er s e | Timeout \<Rightarrow> h)"
  by (cases r) simp_all

lemma keeps_if: "(b \<Longrightarrow> keeps P x) \<Longrightarrow> (\<not> b \<Longrightarrow> keeps P y) \<Longrightarrow> keeps P (if b then x else y)"
  by simp

lemma keeps_prod: "(\<And>a b. keeps P (f a b)) \<Longrightarrow> keeps P (case x of (a, b) \<Rightarrow> f a b)"
  by (cases x) simp

lemma keeps_sum: "(\<And>a. keeps P (f a)) \<Longrightarrow> (\<And>b. keeps P (g b)) \<Longrightarrow> keeps P (case x of Inl a \<Rightarrow> f a | Inr b \<Rightarrow> g b)"
  by (cases x) simp_all

lemma keeps_option: "keeps P f \<Longrightarrow> (\<And>b. keeps P (g b)) \<Longrightarrow> keeps P (case x of None \<Rightarrow> f | Some b \<Rightarrow> g b)"
  by (cases x) simp_all

lemma keeps_mode: "keeps P f \<Longrightarrow> keeps P g \<Longrightarrow> keeps P (case x of Utf8 \<Rightarrow> f | BufferMode \<Rightarrow> g)"
  by (cases x) simp_all

lemma keeps_cb: "(\<And>f. keeps P (a f)) \<Longrightarrow> keeps P b \<Longrightarrow> keeps P c \<Longrightarrow> (\<And>d. keeps P (g d)) \<Longrightarrow>
   keeps P (case x of CbReopen f \<Rightarrow> a f | CbEnd \<Rightarrow> b | CbActualClose \<Rightarrow> c | CbCloseOld d \<Rightarrow> g d)"
  by (cases x) simp_all

lemmas keeps_intros = keeps_outcome keeps_if keeps_prod keeps_sum keeps_option keeps_mode keeps_cb

lemma write_loop_inv: "engine_inv c B W s \<Longrightarrow> keeps (engine_inv c B W) (write_loop k s e)"
proof (induction k arbitrary: s e)
  case 0 then show ?case by simp
next
  case (Suc k)
  have "engine_inv c B W (s\<lparr>p_len := l, p_writingBuf := w\<rparr>)" for l w
    using Suc.prems by (simp add: inv_defs)
  then show ?case
    using Suc.prems
    by (simp only: write_loop.simps Let_def) (intro keeps_intros Suc.IH; simp)
qed

lemma emit_error_inv: "engine_inv c B W s \<Longrightarrow> keeps (engine_inv c B W) (emit_error er s e)"
  by (auto simp add: emit_error_def inv_defs)
lemma emit_drain_inv: "engine_inv c B W s \<Longrightarrow> keeps (engine_inv c B W) (emit_drain s e)"
  by (auto simp add: emit_drain_def inv_defs)
lemma actualClose_inv: "engine_inv c B W s \<Longrightarrow> keeps (engine_inv c B W) (actualClose s e)"
  by (auto simp add: actualClose_def inv_defs)

lemma run_ActualWrite_inv:
  assumes IH: "\<And>cl s e. engine_inv c B W s \<Longrightarrow> keeps (engine_inv c B W) (run k cl s e)"
  shows "engine_inv c B W s \<Longrightarrow> keeps (engine_inv c B W) (run (Suc k) ActualWrite s e)"
  apply (simp only: run.simps call.case Let_def)
  apply (intro keeps_intros IH)
  apply (auto simp: inv_defs split: list.splits)
  done

lemma run_ActualWriteBuffer_inv:
  assumes IH: "\<And>cl s e. engine_inv c B W s \<Longrightarrow> keeps (engine_inv c B W) (run k cl s e)"
  shows "engine_inv c B W s \<Longrightarrow> keeps (engine_inv c B W) (run (Suc k) ActualWriteBuffer s e)"
  apply (simp only: run.simps call.case Let_def)
  apply (intro keeps_intros IH)
  apply (auto simp: inv_defs split: list.splits)
  done


lemmas leaf_invs = write_loop_inv emit_error_inv emit_drain_inv actualClose_inv

lemma run_Release_inv:
  assumes IH: "\<And>cl s e. engine_inv c B W s \<Longrightarrow> keeps (engine_inv c B W) (run k cl s e)"
  shows "engine_inv c B W s \<Longrightarrow> keeps (engine_inv c B W) (run (Suc k) (Release err n) s e)"
  apply (simp only: run.simps call.case Let_def)
  apply (intro keeps_intros IH leaf_invs)
  apply (auto simp: inv_defs)
  done

lemma run_Reopen_inv:
  assumes IH: "\<And>cl s e. engine_inv c B W s \<Longrightarrow> keeps (engine_inv c B W) (run k cl s e)"
  shows "engine_inv c B W s \<Longrightarrow> keeps (engine_inv c B W) (run (Suc k) (Reopen f) s e)"
  apply (simp only: run.simps call.case Let_def)
  apply (intro keeps_intros IH leaf_invs)
  apply (auto simp: inv_defs)
  done

lemma run_OpenFile_inv:
  assumes IH: "\<And>cl s e. engine_inv c B W s \<Longrightarrow> keeps (engine_inv c B W) (run k cl s e)"
  shows "engine_inv c B W s \<Longrightarrow> keeps (engine_inv c B W) (run (Suc k) (OpenFile path) s e)"
  apply (simp only: run.simps call.case Let_def)
  apply (intro keeps_intros IH leaf_invs)
  apply (auto simp: inv_defs)
  done

lemma run_FileOpened_inv:
  assumes IH: "\<And>cl s e. engine_inv c B W s \<Longrightarrow> keeps (engine_inv c B W) (run k cl s e)"
  shows "engine_inv c B W s \<Longrightarrow> keeps (engine_inv c B W) (run (Suc k) (FileOpened path err d) s e)"
  apply (simp only: run.simps call.case Let_def)
  apply (intro keeps_intros IH leaf_invs)
  apply (auto simp: inv_defs)
  done

lemma run_EndWriter_inv:
  assumes IH: "\<And>cl s e. engine_inv c B W s \<Longrightarrow> keeps (engine_inv c B W) (run k cl s e)"
  shows "engine_inv c B W s \<Longrightarrow> keeps (engine_inv c B W) (run (Suc k) EndWriter s e)"
  apply (simp only: run.simps call.case Let_def)
  apply (intro keeps_intros IH leaf_invs)
  apply (auto simp: inv_defs)
  done

lemma keeps_list: "keeps P f \<Longrightarrow> (\<And>a b. x = a # b \<Longrightarrow> keeps P (g a b)) \<Longrightarrow> keeps P (case x of [] \<Rightarrow> f | a # b \<Rightarrow> g a b)"
  by (cases x) simp_all

lemma run_RunReady_inv:
  assumes IH: "\<And>cl s e. engine_inv c B W s \<Longrightarrow> keeps (engine_inv c B W) (run k cl s e)"
  shows "engine_inv c B W s \<Longrightarrow> keeps (engine_inv c B W) (run (Suc k) (RunReady n) s e)"
  apply (simp only: run.simps call.case Let_def)
  apply (intro keeps_intros keeps_list IH leaf_invs)
  apply (auto simp: inv_defs)
  done

lemma run_inv: "engine_inv c B W s \<Longrightarrow> keeps (engine_inv c B W) (run k cl s e)"
proof (induction k arbitrary: cl s e)
  case 0
  then show ?case by simp
next
  case (Suc k)
  show ?case
    using Suc.prems
    by (cases cl) (simp_all only: run_ActualWrite_inv run_ActualWriteBuffer_inv run_Release_inv
          run_Reopen_inv run_OpenFile_inv run_FileOpened_inv run_EndWriter_inv run_RunReady_inv
          Suc.IH)
qed


lemma run_same_config: "same_config c s \<Longrightarrow> keeps (same_config c) (run k cl s e)"
  using run_inv [of c False 0 s k cl e] by (cases "run k cl s e") (simp_all add: engine_inv_def)

lemma run_chunks_within: "chunks_within W s \<Longrightarrow> keeps (chunks_within W) (run k cl s e)"
  using run_inv [of s True W s k cl e] by (cases "run k cl s e") (simp_all add: engine_inv_def same_config_def)

lemma call_actualWrite_run:
  "call_actualWrite k s e = run k (case contentMode s of Utf8 \<Rightarrow> ActualWrite | BufferMode \<Rightarrow> ActualWriteBuffer) s e"
  by (simp add: call_actualWrite_def actualWrite_def actualWriteBuffer_def split: content_mode.split)

lemma keeps_bool:
  "keeps P (case r of Return u s e \<Rightarrow> Return (f s) s e | Throw er s e \<Rightarrow> Throw er s e | Timeout \<Rightarrow> Timeout) = keeps P r"
  by (cases r) simp_all

lemma writeUtf8_same_config: "keeps (same_config s) (writeUtf8 k data s e)"
  by (simp add: writeUtf8_def Let_def keeps_bool call_actualWrite_run)
     (intro conjI impI run_same_config; simp add: same_config_def)

lemma writeBuffer_same_config: "keeps (same_config s) (writeBuffer k data s e)"
  by (simp add: writeBuffer_def Let_def keeps_bool call_actualWrite_run)
     (intro conjI impI run_same_config; simp add: same_config_def)

lemma writeUtf8_chunks_within:
  assumes "chunks_within (maxWrite s) s" and "int (length data) \<le> maxWrite s"
  shows "keeps (chunks_within (maxWrite s)) (writeUtf8 k data s e)"
  using assms
  apply (simp add: writeUtf8_def Let_def keeps_bool call_actualWrite_run)
  apply (intro conjI impI run_chunks_within)
  apply (auto simp add: chunks_within_def list_all_butlast)
  done

lemma writeBuffer_chunks_within:
  assumes "chunks_within (maxWrite s) s" and "int (length data) \<le> maxWrite s"
  shows "keeps (chunks_within (maxWrite s)) (writeBuffer k data s e)"
  using assms
  apply (simp add: writeBuffer_def Let_def keeps_bool call_actualWrite_run)
  apply (intro conjI impI run_chunks_within)
  apply (auto simp add: chunks_within_def list_all_butlast last_map map_butlast)
  done


lemma keeps_ReturnD: "keeps P r \<Longrightarrow> r = Return b s e \<Longrightarrow> P s"
  by simp

lemma buffered_fields [simp]:
  "p_len (buffered data s) = p_len s + int (length data)"
  "p_writing (buffered data s) = p_writing s" "minLength (buffered data s) = minLength s"
  "p_hwm (buffered data s) = p_hwm s" "contentMode (buffered data s) = contentMode s"
  "sync (buffered data s) = sync s" "p_writingBuf (buffered data s) = p_writingBuf s"
  "fd (buffered data s) = fd s" "same_config c (buffered data s) = same_config c s"
  "p_bufs (buffered data s) \<noteq> []"
  by (simp_all add: buffered_def)

lemma bufferedB_fields [simp]:
  "p_len (bufferedB data s) = p_len s + int (length data)"
  "p_writing (bufferedB data s) = p_writing s" "minLength (bufferedB data s) = minLength s"
  "p_hwm (bufferedB data s) = p_hwm s" "contentMode (bufferedB data s) = contentMode s"
  "sync (bufferedB data s) = sync s" "p_writingBuf (bufferedB data s) = p_writingBuf s"
  "fd (bufferedB data s) = fd s" "same_config c (bufferedB data s) = same_config c s"
  "p_bufsB (bufferedB data s) \<noteq> []"
  by (simp_all add: bufferedB_def)

lemma writeUtf8_accepted:
  assumes "\<not> destroyed s"
    and "\<not> (maxLength s \<noteq> 0 \<and> p_len s + int (length data) > maxLength s)"
  shows "writeUtf8 k data s e =
     (case (if \<not> p_writing s \<and> p_len s + int (length data) \<ge> minLength s
            then call_actualWrite k (buffered data s) e
            else Return () (buffered data s) e) of
        Return u s3 e3 \<Rightarrow> Return (p_len s3 < p_hwm s3) s3 e3
      | Throw er s3 e3 \<Rightarrow> Throw er s3 e3
      | Timeout \<Rightarrow> Timeout)"
proof -
  have nd: "(maxLength s \<noteq> 0 \<and> maxLength s < p_len s + int (length data)) = False"
    using assms(2) by simp
  show ?thesis
    using assms(1)
    by (cases "p_bufs s = [] \<or>
               int (length (last (p_bufs s))) + int (length data) > maxWrite s")
       (simp_all add: writeUtf8_def buffered_def Let_def nd)
qed

lemma writeBuffer_accepted:
  assumes "\<not> destroyed s"
    and "\<not> (maxLength s \<noteq> 0 \<and> p_len s + int (length data) > maxLength s)"
  shows "writeBuffer k data s e =
     (case (if \<not> p_writing s \<and> p_len s + int (length data) \<ge> minLength s
            then call_actualWrite k (bufferedB data s) e
            else Return () (bufferedB data s) e) of
        Return u s3 e3 \<Rightarrow> Return (p_len s3 < p_hwm s3) s3 e3
      | Throw er s3 e3 \<Rightarrow> Throw er s3 e3
      | Timeout \<Rightarrow> Timeout)"
proof -
  have nd: "(maxLength s \<noteq> 0 \<and> maxLength s < p_len s + int (length data)) = False"
    using assms(2) by simp
  show ?thesis
  proof (cases "p_bufsB s = [] \<or>
                (p_lens s \<noteq> [] \<and> maxWrite s < last (p_lens s) + int (length data))")
    case True
    then have c:
      "(p_bufsB s = [] \<or>
        p_lens s \<noteq> [] \<and> maxWrite s < last (p_lens s) + int (length data)) = True"
      by simp
    show ?thesis
      using assms(1) by (simp add: writeBuffer_def bufferedB_def Let_def nd c)
  next
    case False
    then have c:
      "(p_bufsB s = [] \<or>
        p_lens s \<noteq> [] \<and> maxWrite s < last (p_lens s) + int (length data)) = False"
      by simp
    show ?thesis
      using assms(1) by (simp add: writeBuffer_def bufferedB_def Let_def nd c)
  qed
qed

text \<open>
  The high-water mark an enqueue compares with after a dispatch is the one the writer had
  before the call.
\<close>

lemma dispatch_boolean:
  assumes "same_config s x"
  shows "(case call_actualWrite k x e of
            Return u s' e' \<Rightarrow> Return (p_len s' < p_hwm s') s' e'
          | Throw er s' e' \<Rightarrow> Throw er s' e'
          | Timeout \<Rightarrow> Timeout) =
         (case call_actualWrite k x e of
            Return u s' e' \<Rightarrow> Return (p_len s' < p_hwm s) s' e'
          | Throw er s' e' \<Rightarrow> Throw er s' e'
          | Timeout \<Rightarrow> Timeout)"
proof (cases "call_actualWrite k x e")
  case (Return u s' e')
  have "keeps (same_config s) (call_actualWrite k x e)"
    unfolding call_actualWrite_run by (rule run_same_config [OF assms])
  with Return have "p_hwm s' = p_hwm s"
    by (simp add: same_config_def)
  with Return show ?thesis by simp
qed simp_all

section \<open>A blocking writer of Buffers or ASCII text loses and repeats nothing\<close>

lemma queued_upd [simp]:
  "queued (s\<lparr>p_len := a1\<rparr>) = queued s"
  "queued (s\<lparr>fd := a2\<rparr>) = queued s"
  "queued (s\<lparr>p_lens := a5\<rparr>) = queued s"
  "queued (s\<lparr>p_writing := a6\<rparr>) = queued s"
  "queued (s\<lparr>p_ending := a7\<rparr>) = queued s"
  "queued (s\<lparr>p_reopening := a8\<rparr>) = queued s"
  "queued (s\<lparr>p_opening := a9\<rparr>) = queued s"
  "queued (s\<lparr>p_asyncDrainScheduled := a10\<rparr>) = queued s"
  "queued (s\<lparr>file_path := a11\<rparr>) = queued s"
  "queued (s\<lparr>destroyed := a12\<rparr>) = queued s"
  "queued (s\<lparr>p_writingBuf := a13\<rparr>) = queued s"
  "queued (s\<lparr>ready_once := a14\<rparr>) = queued s"
  "queued (s\<lparr>flush_waiters := a15\<rparr>) = queued s"
  by (simp_all add: queued_def split: content_mode.split)

lemma queued_bufs:
  "contentMode s = Utf8 \<Longrightarrow> queued (s\<lparr>p_bufs := bs\<rparr>) = concat bs"
  "contentMode s = BufferMode \<Longrightarrow> queued (s\<lparr>p_bufs := bs\<rparr>) = queued s"
  "contentMode s = BufferMode \<Longrightarrow> queued (s\<lparr>p_bufsB := bbs\<rparr>) = concat (map concat bbs)"
  "contentMode s = Utf8 \<Longrightarrow> queued (s\<lparr>p_bufsB := bbs\<rparr>) = queued s"
  "contentMode s = Utf8 \<Longrightarrow> queued s = concat (p_bufs s)"
  "contentMode s = BufferMode \<Longrightarrow> queued s = concat (map concat (p_bufsB s))"
  by (simp_all add: queued_def)

lemma ascii_simps [simp]:
  "ascii []" "ascii (c # cs) = (c < 128 \<and> ascii cs)" "ascii (xs @ ys) = (ascii xs \<and> ascii ys)"
  by (simp_all add: ascii_def)

lemma ascii_unit: "c < 128 \<Longrightarrow> \<not> is_high c \<and> \<not> is_low c \<and> enc_cp c = [c]"
  by (simp add: is_high_def is_low_def enc_cp_def)

lemma utf8_ascii: "ascii xs \<Longrightarrow> utf8 xs = xs"
proof (induction xs rule: utf8.induct)
  case 1
  then show ?case by simp
next
  case (2 c)
  then show ?case by (simp add: ascii_unit)
next
  case (3 h l cs)
  then show ?case by (simp add: ascii_unit)
qed

lemma delivered_append: "delivered (xs @ ys) = delivered xs @ delivered ys"
  by (induction xs rule: delivered.induct) simp_all

lemma delivered_snoc:
  "delivered (xs @ [x]) = delivered xs @ (case x of WriteSync d b \<Rightarrow> b | _ \<Rightarrow> [])"
  by (cases x) (simp_all add: delivered_append)

lemma keeps2_simps [simp]:
  "keeps2 P (Return x s e) = P s e" "keeps2 P (Throw er s e) = P s e" "keeps2 P Timeout = True"
  by (simp_all add: keeps2_def)

lemma keeps2_outcome:
  "keeps2 P r \<Longrightarrow> (\<And>u s e. P s e \<Longrightarrow> keeps2 P (f u s e)) \<Longrightarrow>
   (\<And>er s e. P s e \<Longrightarrow> keeps2 P (g er s e)) \<Longrightarrow> keeps2 P h \<Longrightarrow>
   keeps2 P (case r of Return u s e \<Rightarrow> f u s e | Throw er s e \<Rightarrow> g er s e | Timeout \<Rightarrow> h)"
  by (cases r) simp_all

lemma keeps2_if:
  "(b \<Longrightarrow> keeps2 P x) \<Longrightarrow> (\<not> b \<Longrightarrow> keeps2 P y) \<Longrightarrow> keeps2 P (if b then x else y)"
  by simp

lemma keeps2_prod: "(\<And>a. keeps2 P (f a (snd x))) \<Longrightarrow> keeps2 P (case x of (a, b) \<Rightarrow> f a b)"
  by (cases x) simp

lemma keeps2_sum:
  "(\<And>a. keeps2 P (f a)) \<Longrightarrow> (\<And>b. keeps2 P (g b)) \<Longrightarrow>
   keeps2 P (case x of Inl a \<Rightarrow> f a | Inr b \<Rightarrow> g b)"
  by (cases x) simp_all

lemma keeps2_option:
  "keeps2 P f \<Longrightarrow> (\<And>b. keeps2 P (g b)) \<Longrightarrow> keeps2 P (case x of None \<Rightarrow> f | Some b \<Rightarrow> g b)"
  by (cases x) simp_all

lemma keeps2_mode:
  "(x = Utf8 \<Longrightarrow> keeps2 P f) \<Longrightarrow> (x = BufferMode \<Longrightarrow> keeps2 P g) \<Longrightarrow>
   keeps2 P (case x of Utf8 \<Rightarrow> f | BufferMode \<Rightarrow> g)"
  by (cases x) simp_all

lemma keeps2_write_result:
  "(\<And>m. keeps2 P (g m)) \<Longrightarrow> (\<And>er. keeps2 P (f er)) \<Longrightarrow>
   keeps2 P (case x of Accept m \<Rightarrow> g m | Fail er \<Rightarrow> f er)"
  by (cases x) simp_all

lemmas keeps2_intros =
  keeps2_outcome keeps2_if keeps2_prod keeps2_sum keeps2_option keeps2_mode keeps2_write_result

lemma fs_writeSync_case:
  "(case fs_writeSync d buf m e of (x, e1) \<Rightarrow> (case x of Inl er \<Rightarrow> A er e1 | Inr w \<Rightarrow> B w e1)) =
   (case write_results e (n_writes e) of
      Accept k \<Rightarrow>
        B (min k (length (encode m buf)))
          (log (WriteSync d (take (min k (length (encode m buf))) (encode m buf)))
             (e\<lparr>n_writes := n_writes e + 1\<rparr>))
    | Fail er \<Rightarrow> A er (log (WriteSyncFailed d er) (e\<lparr>n_writes := n_writes e + 1\<rparr>)))"
  by (simp add: fs_writeSync_def Let_def split: write_result.split)

lemma delivered_log [simp]:
  "delivered (trace (log x e)) = delivered (trace e) @ (case x of WriteSync d b \<Rightarrow> b | _ \<Rightarrow> [])"
  by (simp add: log_def delivered_snoc)

lemma trace_counter [simp]:
  "trace (e\<lparr>n_writes := a\<rparr>) = trace e" "trace (e\<lparr>n_fsyncs := b\<rparr>) = trace e"
  "trace (e\<lparr>n_opens := c\<rparr>) = trace e" "trace (e\<lparr>n_mkdirs := d\<rparr>) = trace e"
  by simp_all

lemma delivered_fs [simp]:
  "delivered (trace (snd (fs_fsyncSync d e))) = delivered (trace e)"
  "delivered (trace (snd (fs_mkdirSync p e))) = delivered (trace e)"
  "delivered (trace (snd (fs_openSync p fl md e))) = delivered (trace e)"
  by (simp_all add: fs_fsyncSync_def fs_mkdirSync_def fs_openSync_def Let_def
      split: option.split sum.split)

lemma encode_exact:
  "exact s \<Longrightarrow> encode (contentMode s) (p_writingBuf s) = p_writingBuf s"
  by (cases "contentMode s") (auto simp: exact_def encode_def pending_def utf8_ascii)

lemma ascii_drop: "ascii xs \<Longrightarrow> ascii (drop n xs)"
  by (metis append_take_drop_id ascii_simps(3))

lemma write_loop_carried: "carried T s e \<Longrightarrow> keeps2 (carried T) (write_loop k s e)"
proof (induction k arbitrary: s e)
  case 0
  then show ?case by simp
next
  case (Suc k)
  have enc: "encode (contentMode s) (p_writingBuf s) = p_writingBuf s"
    using Suc.prems by (simp add: carried_def encode_exact)
  show ?case
    using Suc.prems
    apply (simp only: write_loop.simps fs_writeSync_case Let_def enc js_slice_def)
    apply (intro keeps2_intros Suc.IH)
    apply (auto simp: carried_def exact_def pending_def ascii_drop)
    done
qed

lemma mergeBuf_concat: "mergeBuf x (Some (int (length (concat x)))) = concat x"
  by (cases x; cases "tl x") (auto simp: mergeBuf_def)

lemma mergeBuf_head:
  "p_lens s = map (\<lambda>x. int (length (concat x))) (p_bufsB s) \<Longrightarrow> p_bufsB s \<noteq> [] \<Longrightarrow>
   mergeBuf (hd (p_bufsB s)) (case p_lens s of [] \<Rightarrow> None | l # ls \<Rightarrow> Some l) =
     concat (hd (p_bufsB s))"
  by (cases "p_bufsB s") (simp_all add: mergeBuf_concat)

lemma delivered_map_CallCb [simp]: "delivered (map (\<lambda>cb. CallCb cb x) cbs) = []"
  by (induction cbs) simp_all

lemma emit_error_carried: "carried T s e \<Longrightarrow> keeps2 (carried T) (emit_error er s e)"
  by (auto simp: emit_error_def carried_def exact_def pending_def delivered_append)

lemma carried_empty:
  assumes "carried T s e" and "p_len s \<le> 0"
  shows "p_writingBuf s = []" and "queued s = []"
proof -
  have "int (length (p_writingBuf s)) + int (length (queued s)) \<le> 0"
    using assms by (simp add: carried_def exact_def pending_def)
  then have "length (p_writingBuf s) = 0 \<and> length (queued s) = 0"
    by arith
  then show "p_writingBuf s = []" and "queued s = []"
    by simp_all
qed

lemma queued_cleared:
  "queued (s\<lparr>p_bufs := [], p_bufsB := [], p_lens := []\<rparr>) = []"
  by (simp add: queued_def split: content_mode.split)

lemma actualClose_carried:
  assumes "carried T s e" and "p_len s \<le> 0"
  shows "keeps2 (carried T) (actualClose s e)"
proof -
  have w: "p_writingBuf s = []" and q: "queued s = []"
    using carried_empty [OF assms] by simp_all
  have q2: "queued (s\<lparr>destroyed := True, p_bufs := [], p_bufsB := [], p_lens := []\<rparr>) = []"
    using queued_cleared [of "s\<lparr>destroyed := True\<rparr>"] by simp
  show ?thesis
    using assms(1) w q q2
    by (simp add: actualClose_def carried_def exact_def pending_def)
qed

lemmas carried_defs = carried_in_def carried_def exact_def pending_def

lemma run_ActualWrite_carried:
  assumes IH: "\<And>cl s e. carried_in T cl s e \<Longrightarrow> keeps2 (carried T) (run k cl s e)"
  shows "carried_in T ActualWrite s e \<Longrightarrow> keeps2 (carried T) (run (Suc k) ActualWrite s e)"
  apply (simp only: run.simps call.case Let_def fs_writeSync_case)
  apply (intro keeps2_intros IH)
  apply (auto simp: carried_defs queued_bufs encode_def utf8_ascii split: list.splits if_splits)
  done

lemma run_ActualWriteBuffer_carried:
  assumes IH: "\<And>cl s e. carried_in T cl s e \<Longrightarrow> keeps2 (carried T) (run k cl s e)"
  shows "carried_in T ActualWriteBuffer s e \<Longrightarrow>
         keeps2 (carried T) (run (Suc k) ActualWriteBuffer s e)"
  apply (simp only: run.simps call.case Let_def fs_writeSync_case)
  apply (intro keeps2_intros IH)
  apply (auto simp: carried_defs queued_bufs encode_def mergeBuf_head mergeBuf_concat map_tl
      split: list.splits if_splits)
  done

lemma snd_if: "snd (if b then x else y) = (if b then snd x else snd y)"
  by simp

lemma emit_drain_carried: "carried T s e \<Longrightarrow> \<not> sync s \<Longrightarrow> keeps2 (carried T) (emit_drain s e)"
  by (simp add: carried_def exact_def)

lemma carried_in_Release [simp]:
  "carried_in T (Release (Some er) n) s e = carried T s e"
  "carried_in T (Release None n) s e =
     (exact s \<and> 0 \<le> n \<and> nat n \<le> length (p_writingBuf s) \<and>
      delivered (trace e) @ drop (nat n) (pending s) = T)"
  by (simp_all add: carried_in_def)

lemma run_Release_Some_carried:
  assumes IH: "\<And>cl s e. carried_in T cl s e \<Longrightarrow> keeps2 (carried T) (run k cl s e)"
  shows "carried T s e \<Longrightarrow> keeps2 (carried T) (run (Suc k) (Release (Some er) n) s e)"
  apply (simp only: run.simps call.case option.case Let_def)
  apply (intro keeps2_intros IH emit_error_carried)
  apply (auto simp: carried_def exact_def pending_def)
  done

lemma run_Release_None_carried:
  assumes IH: "\<And>cl s e. carried_in T cl s e \<Longrightarrow> keeps2 (carried T) (run k cl s e)"
  shows "carried_in T (Release None n) s e \<Longrightarrow>
         keeps2 (carried T) (run (Suc k) (Release None n) s e)"
  apply (simp only: run.simps call.case option.case Let_def)
  apply (intro keeps2_intros IH write_loop_carried emit_drain_carried actualClose_carried)
  apply (auto simp: carried_in_def carried_def exact_def pending_def js_slice_def ascii_drop
      snd_if split: if_splits)
  done

lemma run_Reopen_carried:
  assumes IH: "\<And>cl s e. carried_in T cl s e \<Longrightarrow> keeps2 (carried T) (run k cl s e)"
  shows "carried_in T (Reopen f) s e \<Longrightarrow> keeps2 (carried T) (run (Suc k) (Reopen f) s e)"
  apply (simp only: run.simps call.case Let_def)
  apply (intro keeps2_intros IH)
  apply (auto simp: carried_in_def carried_def exact_def pending_def)
  done

lemma run_OpenFile_carried:
  assumes IH: "\<And>cl s e. carried_in T cl s e \<Longrightarrow> keeps2 (carried T) (run k cl s e)"
  shows "carried_in T (OpenFile path) s e \<Longrightarrow>
         keeps2 (carried T) (run (Suc k) (OpenFile path) s e)"
  apply (simp only: run.simps call.case Let_def)
  apply (intro keeps2_intros IH)
  apply (auto simp: carried_in_def carried_def exact_def pending_def snd_if split: if_splits)
  done

lemma run_FileOpened_carried:
  assumes IH: "\<And>cl s e. carried_in T cl s e \<Longrightarrow> keeps2 (carried T) (run k cl s e)"
  shows "carried_in T (FileOpened path err d) s e \<Longrightarrow>
         keeps2 (carried T) (run (Suc k) (FileOpened path err d) s e)"
  apply (simp only: run.simps call.case Let_def)
  apply (intro keeps2_intros IH emit_error_carried)
  apply (auto simp: carried_in_def carried_def exact_def pending_def split: if_splits)
  done

lemma run_carried: "carried_in T cl s e \<Longrightarrow> keeps2 (carried T) (run k cl s e)"
proof (induction k arbitrary: cl s e)
  case 0
  then show ?case by simp
next
  case (Suc k)
  show ?case
  proof (cases cl)
    case ActualWrite
    with Suc.prems show ?thesis by (simp only: run_ActualWrite_carried Suc.IH)
  next
    case ActualWriteBuffer
    with Suc.prems show ?thesis by (simp only: run_ActualWriteBuffer_carried Suc.IH)
  next
    case (Release err n)
    with Suc.prems show ?thesis
      by (cases err) (simp_all only: run_Release_None_carried run_Release_Some_carried
          carried_in_Release Suc.IH)
  next
    case (Reopen f)
    with Suc.prems show ?thesis by (simp only: run_Reopen_carried Suc.IH)
  next
    case (OpenFile path)
    with Suc.prems show ?thesis by (simp only: run_OpenFile_carried Suc.IH)
  next
    case (FileOpened path err d)
    with Suc.prems show ?thesis by (simp only: run_FileOpened_carried Suc.IH)
  next
    case EndWriter
    with Suc.prems show ?thesis by (simp add: carried_in_def)
  next
    case (RunReady n)
    with Suc.prems show ?thesis by (simp add: carried_in_def)
  qed
qed

lemma concat_tail_append:
  "bs \<noteq> [] \<Longrightarrow> concat (butlast bs @ [last bs @ d]) = concat bs @ d"
  by (induction bs) auto

lemma concat_tail_appendB:
  "bs \<noteq> [] \<Longrightarrow> concat (map concat (butlast bs @ [last bs @ [d]])) = concat (map concat bs) @ d"
  by (induction bs) auto

lemma keeps2_ReturnD: "keeps2 P r \<Longrightarrow> r = Return b s e \<Longrightarrow> P s e"
  by simp

lemma keeps2_bool:
  "keeps2 P (case r of Return u s e \<Rightarrow> Return (f s) s e | Throw er s e \<Rightarrow> Throw er s e
             | Timeout \<Rightarrow> Timeout) = keeps2 P r"
  by (cases r) simp_all

lemma carried_enqueue_utf8:
  "carried T s e \<Longrightarrow> contentMode s = Utf8 \<Longrightarrow> ascii d \<Longrightarrow>
   concat bs' = concat (p_bufs s) @ d \<Longrightarrow>
   carried (T @ d) (s\<lparr>p_bufs := bs', p_len := p_len s + int (length d)\<rparr>) e"
  by (auto simp: carried_def exact_def pending_def queued_bufs)

lemma writeUtf8_carried:
  assumes c: "carried T s e" and m: "contentMode s = Utf8" and a: "ascii d"
    and nd: "maxLength s = 0" and r: "writeUtf8 k d s e = Return b s' e'"
  shows "carried (T @ d) s' e'"
proof -
  have nodes: "\<not> destroyed s"
    using r by (auto simp: writeUtf8_def)
  have c2: "carried (T @ d) (buffered d s) e"
    unfolding buffered_def
    using carried_enqueue_utf8 [OF c m a, of "p_bufs s @ [d]"]
      carried_enqueue_utf8 [OF c m a, of "butlast (p_bufs s) @ [last (p_bufs s) @ d]"]
      concat_tail_append [of "p_bufs s" d]
    by (simp split: if_splits)
  have "keeps2 (carried (T @ d)) (writeUtf8 k d s e)"
    unfolding writeUtf8_accepted [OF nodes, of d k e, simplified nd, simplified] keeps2_bool
    using c2 m
    by (intro keeps2_if) (simp_all add: call_actualWrite_run run_carried carried_in_def)
  from keeps2_ReturnD [OF this r] show ?thesis .
qed

lemma carried_enqueue_buffer:
  "carried T s e \<Longrightarrow> contentMode s = BufferMode \<Longrightarrow>
   concat (map concat bbs') = concat (map concat (p_bufsB s)) @ d \<Longrightarrow>
   ls' = map (\<lambda>x. int (length (concat x))) bbs' \<Longrightarrow>
   carried (T @ d) (s\<lparr>p_bufsB := bbs', p_lens := ls', p_len := p_len s + int (length d)\<rparr>) e"
  by (auto simp: carried_def exact_def pending_def queued_bufs)

lemma lens_tail_append:
  "bs \<noteq> [] \<Longrightarrow>
   butlast (map (\<lambda>x. int (length (concat x))) bs) @
     [last (map (\<lambda>x. int (length (concat x))) bs) + int (length d)] =
   map (\<lambda>x. int (length (concat x))) (butlast bs @ [last bs @ [d]])"
  by (induction bs) auto

lemma writeBuffer_carried:
  assumes c: "carried T s e" and m: "contentMode s = BufferMode"
    and nd: "maxLength s = 0" and r: "writeBuffer k d s e = Return b s' e'"
  shows "carried (T @ d) s' e'"
proof -
  have nodes: "\<not> destroyed s"
    using r by (auto simp: writeBuffer_def)
  have lens: "p_lens s = map (\<lambda>x. int (length (concat x))) (p_bufsB s)"
    using c by (simp add: carried_def exact_def)
  then have ne: "(p_lens s = []) = (p_bufsB s = [])"
    by simp
  have c2: "carried (T @ d) (bufferedB d s) e"
  proof (cases "p_bufsB s = [] \<or>
                (p_lens s \<noteq> [] \<and> last (p_lens s) + int (length d) > maxWrite s)")
    case True
    then show ?thesis
      using carried_enqueue_buffer [OF c m, of "p_bufsB s @ [[d]]" d "p_lens s @ [int (length d)]"]
      by (simp add: bufferedB_def lens)
  next
    case False
    then have n: "p_bufsB s \<noteq> []" "p_lens s \<noteq> []"
      using ne by simp_all
    show ?thesis
      using carried_enqueue_buffer [OF c m, of "butlast (p_bufsB s) @ [last (p_bufsB s) @ [d]]" d
          "butlast (p_lens s) @ [last (p_lens s) + int (length d)]"]
        concat_tail_appendB [OF n(1), of d] lens_tail_append [OF n(1), of d] False n
      by (simp add: bufferedB_def lens)
  qed
  have "keeps2 (carried (T @ d)) (writeBuffer k d s e)"
    unfolding writeBuffer_accepted [OF nodes, of d k e, simplified nd, simplified] keeps2_bool
    using c2 m
    by (intro keeps2_if) (simp_all add: call_actualWrite_run run_carried carried_in_def)
  from keeps2_ReturnD [OF this r] show ?thesis .
qed

theorem write_all_conserves:
  assumes "carried T s e" and "maxLength s = 0"
    and "contentMode s = BufferMode \<or> list_all ascii ds"
    and "write_all k ds s e = Return u s' e'"
  shows "delivered (trace e') @ pending s' = T @ concat ds"
  using assms
proof (induction ds arbitrary: T s e)
  case Nil
  then show ?case by (simp add: carried_def)
next
  case (Cons d ds)
  show ?case
  proof (cases "contentMode s")
    case Utf8
    with Cons.prems obtain b s1 e1 where
      w: "writeUtf8 k d s e = Return b s1 e1" and rest: "write_all k ds s1 e1 = Return u s' e'"
      by (auto split: outcome.splits)
    have a: "ascii d" and as: "list_all ascii ds" using Cons.prems(3) Utf8 by simp_all
    have c1: "carried (T @ d) s1 e1"
      using writeUtf8_carried [OF Cons.prems(1) Utf8 a Cons.prems(2) w] .
    have cfg: "same_config s s1"
      using keeps_ReturnD [OF writeUtf8_same_config w] .
    then have "maxLength s1 = 0" using Cons.prems(2) by (simp add: same_config_def)
    from Cons.IH [OF c1 this _ rest] as show ?thesis by simp
  next
    case BufferMode
    with Cons.prems obtain b s1 e1 where
      w: "writeBuffer k d s e = Return b s1 e1" and rest: "write_all k ds s1 e1 = Return u s' e'"
      by (auto split: outcome.splits)
    have c1: "carried (T @ d) s1 e1"
      using writeBuffer_carried [OF Cons.prems(1) BufferMode Cons.prems(2) w] .
    have cfg: "same_config s s1"
      using keeps_ReturnD [OF writeBuffer_same_config w] .
    then have "maxLength s1 = 0" "contentMode s1 = BufferMode"
      using Cons.prems(2) BufferMode by (simp_all add: same_config_def)
    from Cons.IH [OF c1 this(1) _ rest] this(2) show ?thesis by simp
  qed
qed

text \<open>
  Whatever the descriptor answers (partial writes, errors, retries), as long as the
  enqueues return: the bytes the descriptor took, followed by the bytes the writer still
  holds, are the bytes enqueued, in order.
\<close>

lemma conservation_example:
  "carried [] sync_buffer_writer (env0 ws fs) \<and> carried [] sync_writer (env0 ws fs) \<and>
   maxLength sync_buffer_writer = 0 \<and> maxLength sync_writer = 0"
  by (simp add: carried_def exact_def pending_def queued_def example_defs sonic0_def env0_def)

section \<open>What a blocking dispatch leaves buffered\<close>

lemma settles_simps [simp]:
  "settles (Return x s e) = (calm s \<and> p_len s \<le> minLength s)"
  "settles (Throw er s e) = calm s" "settles Timeout = True"
  by (simp_all add: settles_def)

lemma calm_upd [simp]:
  "calm (s\<lparr>p_len := a1\<rparr>) = calm s"
  "calm (s\<lparr>p_bufs := a3\<rparr>) = calm s"
  "calm (s\<lparr>p_bufsB := a4\<rparr>) = calm s"
  "calm (s\<lparr>p_lens := a5\<rparr>) = calm s"
  "calm (s\<lparr>p_writing := a6\<rparr>) = calm s"
  "calm (s\<lparr>p_asyncDrainScheduled := a10\<rparr>) = calm s"
  "calm (s\<lparr>p_writingBuf := a13\<rparr>) = calm s"
  "calm (buffered data s) = calm s"
  "calm (bufferedB data s) = calm s"
  by (simp_all add: calm_def buffered_def bufferedB_def)

lemma settles_same:
  "settles r \<Longrightarrow> (\<And>er s e. calm s \<Longrightarrow> settles (g er s e)) \<Longrightarrow>
   settles (case r of Return u s e \<Rightarrow> Return u s e | Throw er s e \<Rightarrow> g er s e
            | Timeout \<Rightarrow> Timeout)"
  by (cases r) simp_all

lemma settles_after:
  "keeps calm r \<Longrightarrow> (\<And>u s e. calm s \<Longrightarrow> settles (f u s e)) \<Longrightarrow>
   (\<And>er s e. calm s \<Longrightarrow> settles (g er s e)) \<Longrightarrow> settles h \<Longrightarrow>
   settles (case r of Return u s e \<Rightarrow> f u s e | Throw er s e \<Rightarrow> g er s e | Timeout \<Rightarrow> h)"
  by (cases r) simp_all

lemma settles_if:
  "(b \<Longrightarrow> settles x) \<Longrightarrow> (\<not> b \<Longrightarrow> settles y) \<Longrightarrow> settles (if b then x else y)"
  by simp

lemma settles_prod: "(\<And>a b. settles (f a b)) \<Longrightarrow> settles (case x of (a, b) \<Rightarrow> f a b)"
  by (cases x) simp

lemma settles_sum:
  "(\<And>a. settles (f a)) \<Longrightarrow> (\<And>b. settles (g b)) \<Longrightarrow>
   settles (case x of Inl a \<Rightarrow> f a | Inr b \<Rightarrow> g b)"
  by (cases x) simp_all

lemma settles_option:
  "settles f \<Longrightarrow> (\<And>b. settles (g b)) \<Longrightarrow> settles (case x of None \<Rightarrow> f | Some b \<Rightarrow> g b)"
  by (cases x) simp_all

lemma settles_mode:
  "settles f \<Longrightarrow> settles g \<Longrightarrow> settles (case x of Utf8 \<Rightarrow> f | BufferMode \<Rightarrow> g)"
  by (cases x) simp_all

lemmas settles_intros =
  settles_same settles_after settles_if settles_prod settles_sum settles_option settles_mode
  keeps_if

lemma write_loop_calm: "calm s \<Longrightarrow> keeps calm (write_loop k s e)"
proof (induction k arbitrary: s e)
  case 0
  then show ?case by simp
next
  case (Suc k)
  then show ?case
    by (simp only: write_loop.simps Let_def) (intro keeps_intros Suc.IH; simp)
qed

lemma emit_error_calm: "calm s \<Longrightarrow> settles (emit_error er (s\<lparr>p_writing := False\<rparr>) e)"
  by (simp add: emit_error_def calm_def)

lemma run_ActualWrite_settles:
  assumes IH: "\<And>err n s e. calm s \<Longrightarrow> settles (run k (Release err n) s e)"
  shows "calm s \<Longrightarrow> settles (run (Suc k) ActualWrite s e)"
  apply (simp only: run.simps call.case Let_def)
  apply (intro settles_intros IH)
  apply (auto simp: calm_def split: list.splits if_splits)
  done

lemma run_ActualWriteBuffer_settles:
  assumes IH: "\<And>err n s e. calm s \<Longrightarrow> settles (run k (Release err n) s e)"
  shows "calm s \<Longrightarrow> settles (run (Suc k) ActualWriteBuffer s e)"
  apply (simp only: run.simps call.case Let_def)
  apply (intro settles_intros IH)
  apply (auto simp: calm_def split: if_splits)
  done

lemma run_Release_settles:
  assumes IH: "\<And>err n s e. calm s \<Longrightarrow> settles (run k (Release err n) s e)"
    and IHW: "\<And>s e. calm s \<Longrightarrow> settles (run k ActualWrite s e)"
    and IHB: "\<And>s e. calm s \<Longrightarrow> settles (run k ActualWriteBuffer s e)"
  shows "calm s \<Longrightarrow> settles (run (Suc k) (Release err n) s e)"
  apply (simp only: run.simps call.case Let_def)
  apply (intro settles_intros IH IHW IHB write_loop_calm emit_error_calm)
  apply (auto simp: calm_def)
  done

lemma run_settles:
  "calm s \<Longrightarrow>
   settles (run k ActualWrite s e) \<and> settles (run k ActualWriteBuffer s e) \<and>
   settles (run k (Release err n) s e)"
proof (induction k arbitrary: s e err n)
  case 0
  then show ?case by simp
next
  case (Suc k)
  have R: "\<And>err n s e. calm s \<Longrightarrow> settles (run k (Release err n) s e)"
    and W: "\<And>s e. calm s \<Longrightarrow> settles (run k ActualWrite s e)"
    and B: "\<And>s e. calm s \<Longrightarrow> settles (run k ActualWriteBuffer s e)"
    using Suc.IH by blast+
  show ?case
    using Suc.prems run_ActualWrite_settles [OF R] run_ActualWriteBuffer_settles [OF R]
      run_Release_settles [OF R W B]
    by blast
qed

lemma call_actualWrite_settles: "calm s \<Longrightarrow> settles (call_actualWrite k s e)"
  using run_settles [of s k e] by (simp add: call_actualWrite_run split: content_mode.split)

text \<open>
  A blocking dispatch that returns has written until at most \<^verbatim>\<open>minLength\<close> units were left;
  it stops earlier only by raising an error.
\<close>

section \<open>A destroyed writer writes nothing but the chunk in flight\<close>


lemma from_flight_simps [simp]:
  "from_flight W (FsWrite d buf m) = suffix buf W"
  "from_flight W (Emit ev)" "from_flight W (WriteSyncFailed d er)" "from_flight W (FsyncSync d)"
  "from_flight W (FsyncSyncFailed d er)" "from_flight W (MkdirSync p)"
  "from_flight W (MkdirSyncFailed p er)" "from_flight W (OpenSync p fl md d)"
  "from_flight W (OpenSyncFailed p fl md er)" "from_flight W (Sleep t)"
  "from_flight W (FsFsync d fk)" "from_flight W (FsClose d ck)" "from_flight W (FsOpen p fl md)"
  "from_flight W (FsMkdirThenOpen p fl md)" "from_flight W (SetTimeoutFsWrite t)"
  "from_flight W (NextTick tk)" "from_flight W (CallCb cb x)"
  by (auto simp: from_flight_def list_ex_iff)



lemma flight_log [simp]:
  "list_all (from_flight W) (trace (log x e)) =
     (list_all (from_flight W) (trace e) \<and> from_flight W x)"
  by (simp add: log_def)

lemma flight_fs [simp]:
  "list_all (from_flight W) (trace (snd (fs_fsyncSync d e))) = list_all (from_flight W) (trace e)"
  "list_all (from_flight W) (trace (snd (fs_mkdirSync p e))) = list_all (from_flight W) (trace e)"
  "list_all (from_flight W) (trace (snd (fs_openSync p fl md e))) =
     list_all (from_flight W) (trace e)"
  by (simp_all add: fs_fsyncSync_def fs_mkdirSync_def fs_openSync_def Let_def
      split: option.split sum.split)

lemma flight_callbacks [simp]:
  "list_all (from_flight W) (map (\<lambda>cb. CallCb cb x) cbs)"
  "list_all (from_flight W) (map (\<lambda>cb. if b then FsFsync d (KFlushCb cb) else CallCb cb y) cbs)"
  by (induction cbs) simp_all


















section \<open>The claims\<close>

subsection \<open>C2: enqueueing past the drop threshold\<close>

text \<open>
  C2. On a writer that is not destroyed and has a drop threshold above 0, an enqueue
  whose prospective length \<open>p_len s + length data\<close> exceeds the threshold returns at once:
  the writer is left exactly as it was (nothing buffered, the length and the pending
  chunks unchanged), the only effect is a \<^verbatim>\<open>drop\<close> event that carries exactly the
  rejected data, and the boolean returned compares the unchanged length with the
  high-water mark. This holds for \<^verbatim>\<open>write\<close> and for \<^verbatim>\<open>writeBuffer\<close>, whatever the depth
  bound.
\<close>

theorem write_drop:
  assumes "\<not> destroyed s" and "maxLength s > 0"
    and "p_len s + int (length data) > maxLength s"
  shows "writeUtf8 k data s e = Return (p_len s < p_hwm s) s (log (Emit (EvDrop data)) e) \<and>
         writeBuffer k data s e = Return (p_len s < p_hwm s) s (log (Emit (EvDrop data)) e)"
  using assms by (simp add: writeUtf8_def writeBuffer_def Let_def)

text \<open>The spec's example: threshold 500, 480 bytes buffered, 50 bytes enqueued.\<close>

theorem write_drop_witness:
  "\<not> destroyed drop_writer \<and> maxLength drop_writer = 500 \<and> p_len drop_writer = 480 \<and>
   writeUtf8 0 (replicate 50 98) drop_writer (env0 [] []) =
     Return True drop_writer (log (Emit (EvDrop (replicate 50 98))) (env0 [] [])) \<and>
   writeBuffer 0 (replicate 50 98) drop_writer (env0 [] []) =
     Return True drop_writer (log (Emit (EvDrop (replicate 50 98))) (env0 [] []))"
  using write_drop [of drop_writer "replicate 50 98" 0 "env0 [] []"]
  by (simp add: drop_writer_def sonic0_def)

subsection \<open>C10: flushing a destroyed writer\<close>

text \<open>
  C10. On a destroyed writer, \<^verbatim>\<open>flush\<close> (and \<^verbatim>\<open>flushBuffer\<close>) called with a function as
  callback calls it with the error \<^verbatim>\<open>SonicBoom destroyed\<close> and returns, leaving the writer
  as it was; the call throws that error exactly when no callback is supplied (\<^verbatim>\<open>undefined\<close>
  or \<^verbatim>\<open>null\<close>), and a call with a function never throws.
\<close>

theorem flush_destroyed:
  assumes "destroyed s"
  shows "flush k (CbFn c) s e =
           Return () s (log (CallCb c (Some (Error ''SonicBoom destroyed''))) e) \<and>
         flushBuffer k (CbFn c) s e =
           Return () s (log (CallCb c (Some (Error ''SonicBoom destroyed''))) e) \<and>
         ((flush k cb s e = Throw (Error ''SonicBoom destroyed'') s e) =
            (cb = CbUndefined \<or> cb = CbNull)) \<and>
         ((flushBuffer k cb s e = Throw (Error ''SonicBoom destroyed'') s e) =
            (cb = CbUndefined \<or> cb = CbNull))"
  using assms by (cases cb) (simp_all add: flush_def flushBuffer_def)

theorem flush_destroyed_witness:
  "destroy fd_writer (env0 [] []) =
     Return () (fd_writer\<lparr>destroyed := True\<rparr>) (log (FsFsync 1 KCloseWrapped) (env0 [] [])) \<and>
   flush 0 (CbFn 7) (fd_writer\<lparr>destroyed := True\<rparr>) (env0 [] []) =
     Return () (fd_writer\<lparr>destroyed := True\<rparr>)
       (log (CallCb 7 (Some (Error ''SonicBoom destroyed''))) (env0 [] [])) \<and>
   flush 0 CbUndefined (fd_writer\<lparr>destroyed := True\<rparr>) (env0 [] []) =
     Throw (Error ''SonicBoom destroyed'') (fd_writer\<lparr>destroyed := True\<rparr>) (env0 [] [])"
  using flush_destroyed [of "fd_writer\<lparr>destroyed := True\<rparr>" 0 7 "env0 [] []" CbUndefined]
  by (simp add: fd_writer_def sonic0_def destroy_def actualClose_def)

subsection \<open>C8: reopening a writer that has no backing path\<close>

text \<open>
  C8 as stated fails: on a writer built from the bare descriptor 1, \<^verbatim>\<open>reopen\<close> with a new
  path still throws the missing-path error.
\<close>

theorem reopen_path_on_fd_writer_throws:
  "reopen (Suc 0) (Some ''/var/log/new.log'') fd_writer (env0 [] []) =
     Throw (Error ''Unable to reopen a file descriptor, you must pass a file to SonicBoom'')
       fd_writer (env0 [] [])"
  by (simp add: reopen_Suc fd_writer_def sonic0_def)

text \<open>
  C8, amended. On a writer that is not destroyed, not opening and not ending, \<^verbatim>\<open>reopen\<close>
  throws the missing-path error whenever the writer itself has no backing path (\<^verbatim>\<open>file\<close> is
  unset or empty), whatever path argument is supplied; and when the writer has a backing
  path the guard is passed: the writer is marked reopening and, unless a write is in
  flight, the supplied path (or else the backing path) is opened.
\<close>

theorem reopen_needs_backing_path:
  assumes "\<not> destroyed s" and "\<not> p_opening s" and "\<not> p_ending s"
  shows "(file_path s = None \<or> file_path s = Some [] \<longrightarrow>
            reopen (Suc k) f s e =
              Throw (Error ''Unable to reopen a file descriptor, you must pass a file to SonicBoom'')
                s e) \<and>
         (file_path s \<noteq> None \<and> file_path s \<noteq> Some [] \<longrightarrow>
            reopen (Suc k) f s e =
              (if p_writing s then Return () (s\<lparr>p_reopening := True\<rparr>) e
               else openFile k
                      (case f of
                         None \<Rightarrow> the (file_path s)
                       | Some p \<Rightarrow> if p = [] then the (file_path s) else p)
                      (s\<lparr>p_reopening := True, ready_once := ready_once s @ [CbCloseOld (fd s)]\<rparr>)
                      e))"
  using assms by (cases f) (simp_all add: reopen_Suc Let_def)

theorem reopen_needs_backing_path_witness:
  "reopen (Suc 0) None fd_writer (env0 [] []) =
     Throw (Error ''Unable to reopen a file descriptor, you must pass a file to SonicBoom'')
       fd_writer (env0 [] []) \<and>
   reopen (Suc 0) (Some ''/var/log/new.log'')
       (fd_writer\<lparr>file_path := Some ''/var/log/app.log'', p_writing := True\<rparr>) (env0 [] []) =
     Return ()
       (fd_writer\<lparr>file_path := Some ''/var/log/app.log'', p_writing := True, p_reopening := True\<rparr>)
       (env0 [] [])"
  using reopen_needs_backing_path [of fd_writer 0 None "env0 [] []"]
    reopen_needs_backing_path
      [of "fd_writer\<lparr>file_path := Some ''/var/log/app.log'', p_writing := True\<rparr>" 0
          "Some ''/var/log/new.log''" "env0 [] []"]
  by (simp add: fd_writer_def sonic0_def)

subsection \<open>C5: destroy\<close>




subsection \<open>C4: a failed write during \<^verbatim>\<open>flushSync\<close>\<close>

text \<open>
  \<^verbatim>\<open>flushSync\<close> throws a write error only when it is of the retryable class and the retry
  predicate refuses it. Every other error is slept on and the write is tried again, so
  the loop never raises an error of another class.
\<close>

lemma flushSync_loop_throws_only_retryable:
  "flushSync_loop k buf s e = Throw er s' e' \<Longrightarrow> retryable er"
proof (induction k arbitrary: buf s e)
  case 0
  then show ?case by simp
next
  case (Suc k)
  then show ?case
    by (auto simp: Let_def split: prod.splits sum.splits if_splits)
qed

lemma flushBufferSync_loop_throws_only_retryable:
  "flushBufferSync_loop k buf s e = Throw er s' e' \<Longrightarrow> retryable er"
proof (induction k arbitrary: buf s e)
  case 0
  then show ?case by simp
next
  case (Suc k)
  then show ?case
    by (auto simp: Let_def split: prod.splits sum.splits if_splits)
qed

lemma flushSync_throws_only_retryable:
  assumes "\<not> destroyed s" and "0 \<le> fd s"
  shows "flushSync k s e = Throw er s' e' \<Longrightarrow> retryable er"
    and "flushBufferSync k s e = Throw er s' e' \<Longrightarrow> retryable er"
  using assms
  by (auto simp: flushSync_def flushBufferSync_def split: if_splits
      dest: flushSync_loop_throws_only_retryable flushBufferSync_loop_throws_only_retryable)

text \<open>
  C4 (the code departs from the claim). The writer holds one byte; the first blocking
  write fails with \<^verbatim>\<open>ENOSPC\<close>, which is not of the retryable class. \<^verbatim>\<open>flushSync\<close> does not
  raise: it sleeps, writes again and returns normally.
\<close>

theorem flushSync_retries_nonretryable:
  "flushSync (Suc (Suc (Suc k))) flush_writer (env0 [Fail (SysError ''ENOSPC'')] []) =
     Return () (flush_writer\<lparr>p_len := 0, p_bufs := []\<rparr>)
       ((env0 [Fail (SysError ''ENOSPC'')] [])
          \<lparr>n_writes := 2,
           trace := [WriteSyncFailed 1 (SysError ''ENOSPC''), Sleep 100, WriteSync 1 [97]]\<rparr>)"
  by (simp add: eval_defs example_defs)

subsection \<open>C6: a failed fsync after a completed chunk\<close>

text \<open>
  C6 (the code departs from the claim). A blocking writer that fsyncs after every write
  holds the chunk \<^verbatim>\<open>aaaa\<close>; six more bytes start a second chunk and trigger the dispatch.
  The chunk \<^verbatim>\<open>aaaa\<close> is written, then \<^verbatim>\<open>fsyncSync\<close> fails with \<^verbatim>\<open>EIO\<close>. With no listener on
  \<^verbatim>\<open>error\<close> the enqueue raises \<^verbatim>\<open>EIO\<close> to its caller; with a listener an \<^verbatim>\<open>error\<close> event is
  emitted. Either way the dispatch stops: the second chunk stays pending although the
  buffered length 6 exceeds the flush threshold 5.
\<close>

theorem fsync_failure_stops_dispatch:
  "writeUtf8 (Suc (Suc (Suc k))) [98, 98, 98, 98, 98, 98] fsync_writer
       (env0 [] [Some (SysError ''EIO'')]) =
     Throw (SysError ''EIO'')
       (fsync_writer\<lparr>p_len := 6, p_bufs := [[98, 98, 98, 98, 98, 98]]\<rparr>)
       ((env0 [] [Some (SysError ''EIO'')])
          \<lparr>n_writes := 1, n_fsyncs := 1,
           trace := [WriteSync 1 [97, 97, 97, 97], Emit (EvWrite 4),
                     FsyncSyncFailed 1 (SysError ''EIO'')]\<rparr>) \<and>
   writeUtf8 (Suc (Suc (Suc k))) [98, 98, 98, 98, 98, 98] (on_listener ''error'' fsync_writer)
       (env0 [] [Some (SysError ''EIO'')]) =
     Return True
       (fsync_writer\<lparr>p_len := 6, p_bufs := [[98, 98, 98, 98, 98, 98]], error_listeners := 1\<rparr>)
       ((env0 [] [Some (SysError ''EIO'')])
          \<lparr>n_writes := 1, n_fsyncs := 1,
           trace := [WriteSync 1 [97, 97, 97, 97], Emit (EvWrite 4),
                     FsyncSyncFailed 1 (SysError ''EIO''), Emit (EvError (SysError ''EIO''))]\<rparr>)"
  by (simp add: eval_defs example_defs actualWrite_Suc release_Suc)

subsection \<open>C1 and C9: partial writes of text with multi-byte characters\<close>

text \<open>
  C1 (the code departs from the claim). A blocking writer in utf8 mode is given the two
  characters U+00E9 and \<^verbatim>\<open>b\<close>, three bytes in UTF-8. The descriptor takes two bytes, the
  whole first character. \<^verbatim>\<open>release\<close> then drops two characters from the chunk in flight,
  so nothing is left to write: the call returns with nothing pending, and the byte 98
  was never handed to the descriptor.
\<close>

theorem partial_write_loses_multibyte_tail:
  "writeUtf8 (Suc (Suc (Suc k))) [233, 98] sync_writer (env0 [Accept 2] []) =
     Return True (sync_writer\<lparr>p_asyncDrainScheduled := True\<rparr>)
       ((env0 [Accept 2] [])
          \<lparr>n_writes := 1,
           trace := [WriteSync 1 [195, 169], Emit (EvWrite 2), NextTick TickEmitDrain]\<rparr>) \<and>
   p_bufs (sync_writer\<lparr>p_asyncDrainScheduled := True\<rparr>) = [] \<and>
   p_writingBuf (sync_writer\<lparr>p_asyncDrainScheduled := True\<rparr>) = [] \<and>
   delivered [WriteSync 1 [195, 169], Emit (EvWrite 2), NextTick TickEmitDrain] = [195, 169] \<and>
   utf8 [233, 98] = [195, 169, 98]"
  by (simp add: eval_defs example_defs actualWrite_Suc release_Suc)

text \<open>
  What does hold of a partial write, shown in deferred mode: \<^verbatim>\<open>release(null, n)\<close> subtracts
  \<open>n\<close> from the length, clamped at 0, drops the first \<open>n\<close> units of the chunk in flight
  and submits the rest of that same chunk.
\<close>

lemma release_partial_write_deferred:
  assumes "\<not> sync s" and "0 \<le> n" and "nat n < length (p_writingBuf s)"
  shows "release (Suc k) None n s e =
           Return ()
             (s\<lparr>p_len := max (p_len s - n) 0, p_writingBuf := drop (nat n) (p_writingBuf s)\<rparr>)
             (log (FsWrite (fd s) (drop (nat n) (p_writingBuf s)) (contentMode s))
                (log (Emit (EvWrite n)) e))"
  using assms by (simp add: release_Suc Let_def js_slice_def max_def)

text \<open>
  C9 (the code departs from the claim). The same writer is given three times U+00E9,
  six bytes. The descriptor first takes two bytes; \<^verbatim>\<open>release\<close> subtracts 2 from the length
  3 and drops two characters, and the loop that writes the rest subtracts the 2 bytes of
  the last character without clamping: the call returns with the buffered length -1.
  The prefix dropped from the chunk (two characters, four bytes) is not the prefix the
  descriptor took (two bytes).
\<close>

theorem release_loop_length_negative:
  "writeUtf8 (Suc (Suc (Suc k))) [233, 233, 233] sync_writer (env0 [Accept 2] []) =
     Return True (sync_writer\<lparr>p_asyncDrainScheduled := True, p_len := - 1\<rparr>)
       ((env0 [Accept 2] [])
          \<lparr>n_writes := 2,
           trace := [WriteSync 1 [195, 169], Emit (EvWrite 2), WriteSync 1 [195, 169],
                     NextTick TickEmitDrain]\<rparr>) \<and>
   p_len (sync_writer\<lparr>p_asyncDrainScheduled := True, p_len := - 1\<rparr>) < 0 \<and>
   utf8 [233, 233, 233] = [195, 169, 195, 169, 195, 169]"
  by (simp add: eval_defs example_defs actualWrite_Suc release_Suc)

subsection \<open>C3: the backpressure boolean\<close>

lemma ascii_replicate [simp]: "c < 128 \<Longrightarrow> ascii (replicate n c)"
  by (induction n) simp_all

text \<open>
  C3 as stated fails in blocking mode. The high-water mark of a writer on descriptor 1 is
  16387. Enqueueing 16387 bytes sets the length to 16387, which is not below the mark, but
  the enqueue dispatches at once, the blocking write takes all the bytes, and the
  comparison made when the call returns finds the length 0: the call returns true.
\<close>

theorem blocking_enqueue_at_hwm_returns_true:
  "writeUtf8 (Suc (Suc (Suc 0))) (replicate 16387 97) sync_writer (env0 [] []) =
     Return True (sync_writer\<lparr>p_asyncDrainScheduled := True\<rparr>)
       ((env0 [] [])
          \<lparr>n_writes := 1,
           trace := [WriteSync 1 (replicate 16387 97), Emit (EvWrite 16387),
                     NextTick TickEmitDrain]\<rparr>) \<and>
   p_len (buffered (replicate 16387 97) sync_writer) = 16387 \<and>
   p_hwm sync_writer = 16387 \<and> maxLength sync_writer = 0 \<and> \<not> destroyed sync_writer"
  by (simp add: eval_defs example_defs actualWrite_Suc release_Suc utf8_ascii)

text \<open>
  C3, amended. An enqueue on a writer that is not destroyed, and that the drop threshold
  does not reject, buffers the data and sets the length to the prospective length
  \<open>p_len s + length data\<close>. The boolean it returns compares the length with the high-water
  mark at the moment the call returns:
  \<^item> when the call does not dispatch (a write is in flight, or the prospective length is
    below \<^verbatim>\<open>minLength\<close>) it returns at once, and the boolean is true exactly when the
    prospective length is below the mark;
  \<^item> otherwise (in deferred mode: on a descriptor that is set) the call runs
    \<^verbatim>\<open>_actualWrite\<close> on the writer that has buffered the data, and the boolean is true
    exactly when the length that this dispatch leaves is below the mark the writer had
    before the call;
  \<^item> in deferred mode the dispatch only submits the write, so the length it leaves is the
    prospective length again;
  \<^item> in blocking mode the dispatch writes before the call returns: on a calm writer a call
    that returns leaves at most \<^verbatim>\<open>minLength\<close> units buffered, whatever the prospective
    length was, so it returns true whenever \<^verbatim>\<open>minLength\<close> is below the mark.
\<close>

theorem write_backpressure:
  assumes "\<not> destroyed s"
    and "\<not> (maxLength s \<noteq> 0 \<and> p_len s + int (length data) > maxLength s)"
  shows
    "(p_writing s \<or> p_len s + int (length data) < minLength s \<longrightarrow>
        writeUtf8 k data s e =
          Return (p_len s + int (length data) < p_hwm s) (buffered data s) e \<and>
        writeBuffer k data s e =
          Return (p_len s + int (length data) < p_hwm s) (bufferedB data s) e) \<and>
     (\<not> p_writing s \<and> minLength s \<le> p_len s + int (length data) \<and>
      (sync s \<or> 0 \<le> fd s) \<longrightarrow>
        writeUtf8 k data s e =
          (case call_actualWrite k (buffered data s) e of
             Return u s' e' \<Rightarrow> Return (p_len s' < p_hwm s) s' e'
           | Throw er s' e' \<Rightarrow> Throw er s' e'
           | Timeout \<Rightarrow> Timeout) \<and>
        writeBuffer k data s e =
          (case call_actualWrite k (bufferedB data s) e of
             Return u s' e' \<Rightarrow> Return (p_len s' < p_hwm s) s' e'
           | Throw er s' e' \<Rightarrow> Throw er s' e'
           | Timeout \<Rightarrow> Timeout)) \<and>
     (\<not> p_writing s \<and> minLength s \<le> p_len s + int (length data) \<and> \<not> sync s \<and>
      0 \<le> fd s \<and> contentMode s = Utf8 \<longrightarrow>
        (\<exists>s' e'. call_actualWrite (Suc k) (buffered data s) e = Return () s' e' \<and>
                 p_len s' = p_len s + int (length data) \<and>
                 writeUtf8 (Suc k) data s e =
                   Return (p_len s + int (length data) < p_hwm s) s' e')) \<and>
     (\<not> p_writing s \<and> minLength s \<le> p_len s + int (length data) \<and> \<not> sync s \<and>
      0 \<le> fd s \<and> contentMode s = BufferMode \<longrightarrow>
        (\<exists>s' e'. call_actualWrite (Suc k) (bufferedB data s) e = Return () s' e' \<and>
                 p_len s' = p_len s + int (length data) \<and>
                 writeBuffer (Suc k) data s e =
                   Return (p_len s + int (length data) < p_hwm s) s' e')) \<and>
     (\<not> p_writing s \<and> minLength s \<le> p_len s + int (length data) \<and> calm s \<longrightarrow>
        (\<forall>b s' e'.
           writeUtf8 k data s e = Return b s' e' \<or> writeBuffer k data s e = Return b s' e' \<longrightarrow>
           p_len s' \<le> minLength s \<and> b = (p_len s' < p_hwm s) \<and>
           (minLength s < p_hwm s \<longrightarrow> b)))"
proof -
  let ?L = "p_len s + int (length data)"
  have hwm: "p_hwm s' = p_hwm s \<and> minLength s' = minLength s"
    if d: "call_actualWrite k x e = Return u s' e'" and c: "same_config s x" for k x u s' e'
  proof -
    have "keeps (same_config s) (call_actualWrite k x e)"
      unfolding call_actualWrite_run by (rule run_same_config [OF c])
    with d have "same_config s s'" by simp
    then show ?thesis by (simp add: same_config_def)
  qed
  have c1: "p_writing s \<or> ?L < minLength s \<Longrightarrow>
        writeUtf8 k data s e = Return (?L < p_hwm s) (buffered data s) e \<and>
        writeBuffer k data s e = Return (?L < p_hwm s) (bufferedB data s) e"
    unfolding writeUtf8_accepted [OF assms] writeBuffer_accepted [OF assms] by auto
  have c2:
    "writeUtf8 k data s e =
       (case call_actualWrite k (buffered data s) e of
          Return u s' e' \<Rightarrow> Return (p_len s' < p_hwm s) s' e'
        | Throw er s' e' \<Rightarrow> Throw er s' e'
        | Timeout \<Rightarrow> Timeout) \<and>
     writeBuffer k data s e =
       (case call_actualWrite k (bufferedB data s) e of
          Return u s' e' \<Rightarrow> Return (p_len s' < p_hwm s) s' e'
        | Throw er s' e' \<Rightarrow> Throw er s' e'
        | Timeout \<Rightarrow> Timeout)"
    if h: "\<not> p_writing s \<and> minLength s \<le> ?L" for k
  proof -
    have sc: "same_config s (buffered data s)" "same_config s (bufferedB data s)"
      by simp_all
    show ?thesis
      unfolding writeUtf8_accepted [OF assms] writeBuffer_accepted [OF assms]
      using h dispatch_boolean [OF sc(1), of k e] dispatch_boolean [OF sc(2), of k e]
      by simp
  qed
  have d1: "\<not> sync s \<Longrightarrow> contentMode s = Utf8 \<Longrightarrow>
        \<exists>s' e'. call_actualWrite (Suc k) (buffered data s) e = Return () s' e' \<and> p_len s' = ?L"
    by (auto simp: call_actualWrite_def actualWrite_Suc Let_def split: list.splits)
  have d2: "\<not> sync s \<Longrightarrow> contentMode s = BufferMode \<Longrightarrow>
        \<exists>s' e'. call_actualWrite (Suc k) (bufferedB data s) e = Return () s' e' \<and> p_len s' = ?L"
    by (auto simp: call_actualWrite_def actualWriteBuffer_Suc Let_def)
  have c3: "\<not> p_writing s \<and> minLength s \<le> ?L \<and> \<not> sync s \<and> 0 \<le> fd s \<and>
            contentMode s = Utf8 \<Longrightarrow>
        \<exists>s' e'. call_actualWrite (Suc k) (buffered data s) e = Return () s' e' \<and>
                 p_len s' = ?L \<and> writeUtf8 (Suc k) data s e = Return (?L < p_hwm s) s' e'"
    using d1 c2 [of "Suc k"] by fastforce
  have c4: "\<not> p_writing s \<and> minLength s \<le> ?L \<and> \<not> sync s \<and> 0 \<le> fd s \<and>
            contentMode s = BufferMode \<Longrightarrow>
        \<exists>s' e'. call_actualWrite (Suc k) (bufferedB data s) e = Return () s' e' \<and>
                 p_len s' = ?L \<and> writeBuffer (Suc k) data s e = Return (?L < p_hwm s) s' e'"
    using d2 c2 [of "Suc k"] by fastforce
  have c5: "p_len s' \<le> minLength s \<and> b = (p_len s' < p_hwm s) \<and>
            (minLength s < p_hwm s \<longrightarrow> b)"
    if h: "\<not> p_writing s \<and> minLength s \<le> ?L \<and> calm s"
      and r: "writeUtf8 k data s e = Return b s' e' \<or> writeBuffer k data s e = Return b s' e'"
    for b s' e'
  proof -
    from r c2 [OF conjI [OF conjunct1 [OF h] conjunct1 [OF conjunct2 [OF h]]], of k]
    obtain x where x: "x = buffered data s \<or> x = bufferedB data s"
      and d: "call_actualWrite k x e = Return () s' e'" and b: "b = (p_len s' < p_hwm s)"
      by (auto split: outcome.splits)
    have "calm x" using x h by auto
    from call_actualWrite_settles [OF this, of k e] d
    have "p_len s' \<le> minLength s'" by simp
    moreover have "same_config s x"
      using x by auto
    then have "minLength s' = minLength s"
      using hwm [OF d] by simp
    ultimately show ?thesis using b by auto
  qed
  from c1 c2 [of k] c3 c4 c5 show ?thesis by blast
qed

text \<open>
  A writer whose file is still being opened has a write in flight: one more byte joins
  the chunk \<^verbatim>\<open>abc\<close> and the call returns true at once. In deferred mode 16387 bytes reach the
  high-water mark and 16386 do not, and a writer of Buffers submits the two bytes it is
  given. In blocking mode the 16387 bytes are written before the call returns, which
  leaves nothing buffered.
\<close>

theorem write_backpressure_witness:
  "\<not> destroyed opening_writer_abc \<and> p_writing opening_writer_abc \<and>
   writeUtf8 0 [100] opening_writer_abc (env0 [] []) =
     Return True (opening_writer_abc\<lparr>p_bufs := [[97, 98, 99, 100]], p_len := 4\<rparr>) (env0 [] []) \<and>
   \<not> destroyed fd_writer \<and> \<not> p_writing fd_writer \<and> \<not> sync fd_writer \<and>
   fd fd_writer = 1 \<and> p_hwm fd_writer = 16387 \<and>
   writeUtf8 (Suc 0) (replicate 16387 97) fd_writer (env0 [] []) =
     Return False
       (fd_writer\<lparr>p_writing := True, p_writingBuf := replicate 16387 97, p_len := 16387\<rparr>)
       (log (FsWrite 1 (replicate 16387 97) Utf8) (env0 [] [])) \<and>
   writeUtf8 (Suc 0) (replicate 16386 97) fd_writer (env0 [] []) =
     Return True
       (fd_writer\<lparr>p_writing := True, p_writingBuf := replicate 16386 97, p_len := 16386\<rparr>)
       (log (FsWrite 1 (replicate 16386 97) Utf8) (env0 [] [])) \<and>
   writeBuffer (Suc 0) [1, 2] (sync_buffer_writer\<lparr>sync := False\<rparr>) (env0 [] []) =
     Return True
       (sync_buffer_writer\<lparr>sync := False, p_writing := True, p_writingBuf := [1, 2], p_len := 2\<rparr>)
       (log (FsWrite 1 [1, 2] BufferMode) (env0 [] [])) \<and>
   calm sync_buffer_writer \<and>
   writeBuffer (Suc (Suc (Suc 0))) (replicate 16387 97) sync_buffer_writer (env0 [] []) =
     Return True (sync_buffer_writer\<lparr>p_asyncDrainScheduled := True\<rparr>)
       ((env0 [] [])
          \<lparr>n_writes := 1,
           trace := [WriteSync 1 (replicate 16387 97), Emit (EvWrite 16387),
                     NextTick TickEmitDrain]\<rparr>) \<and>
   p_len (sync_buffer_writer\<lparr>p_asyncDrainScheduled := True\<rparr>) \<le> minLength sync_buffer_writer"
proof -
  have f: "\<not> destroyed opening_writer_abc" "p_writing opening_writer_abc"
    "maxLength opening_writer_abc = 0" "p_len opening_writer_abc = 3"
    "p_hwm opening_writer_abc = 16387"
    "buffered [100] opening_writer_abc =
       opening_writer_abc\<lparr>p_bufs := [[97, 98, 99, 100]], p_len := 4\<rparr>"
    "\<not> destroyed fd_writer" "\<not> p_writing fd_writer" "\<not> sync fd_writer"
    "fd fd_writer = 1" "p_hwm fd_writer = 16387" "maxLength fd_writer = 0" "calm sync_buffer_writer"
    "\<not> destroyed sync_buffer_writer" "maxLength sync_buffer_writer = 0"
    "\<not> p_writing sync_buffer_writer" "minLength sync_buffer_writer = 0"
    "p_len sync_buffer_writer = 0"
    by (simp_all add: example_defs sonic0_def buffered_def calm_def)
  have a: "writeUtf8 0 [100] opening_writer_abc (env0 [] []) =
     Return True (opening_writer_abc\<lparr>p_bufs := [[97, 98, 99, 100]], p_len := 4\<rparr>) (env0 [] [])"
    using write_backpressure [of opening_writer_abc "[100]" 0 "env0 [] []", THEN conjunct1]
    by (simp add: f)
  have b: "writeUtf8 (Suc 0) (replicate 16387 97) fd_writer (env0 [] []) =
     Return False
       (fd_writer\<lparr>p_writing := True, p_writingBuf := replicate 16387 97, p_len := 16387\<rparr>)
       (log (FsWrite 1 (replicate 16387 97) Utf8) (env0 [] []))"
    "writeUtf8 (Suc 0) (replicate 16386 97) fd_writer (env0 [] []) =
     Return True
       (fd_writer\<lparr>p_writing := True, p_writingBuf := replicate 16386 97, p_len := 16386\<rparr>)
       (log (FsWrite 1 (replicate 16386 97) Utf8) (env0 [] []))"
    using write_backpressure [of fd_writer "replicate 16387 97" 0 "env0 [] []",
        THEN conjunct2, THEN conjunct2, THEN conjunct1]
    by (simp_all add: eval_defs example_defs actualWrite_Suc)
  have b2: "writeBuffer (Suc 0) [1, 2] (sync_buffer_writer\<lparr>sync := False\<rparr>) (env0 [] []) =
     Return True
       (sync_buffer_writer\<lparr>sync := False, p_writing := True, p_writingBuf := [1, 2], p_len := 2\<rparr>)
       (log (FsWrite 1 [1, 2] BufferMode) (env0 [] []))"
    using write_backpressure [of "sync_buffer_writer\<lparr>sync := False\<rparr>" "[1, 2]" 0
        "env0 [] []", THEN conjunct2, THEN conjunct2, THEN conjunct2, THEN conjunct1]
    by (simp add: eval_defs example_defs actualWriteBuffer_Suc)
  have c: "writeBuffer (Suc (Suc (Suc 0))) (replicate 16387 97) sync_buffer_writer (env0 [] []) =
     Return True (sync_buffer_writer\<lparr>p_asyncDrainScheduled := True\<rparr>)
       ((env0 [] [])
          \<lparr>n_writes := 1,
           trace := [WriteSync 1 (replicate 16387 97), Emit (EvWrite 16387),
                     NextTick TickEmitDrain]\<rparr>)"
    by (simp add: eval_defs example_defs actualWriteBuffer_Suc release_Suc)
  have "p_len (sync_buffer_writer\<lparr>p_asyncDrainScheduled := True\<rparr>) \<le>
        minLength sync_buffer_writer"
    using write_backpressure [of sync_buffer_writer "replicate 16387 97" "Suc (Suc (Suc 0))"
        "env0 [] []", THEN conjunct2, THEN conjunct2, THEN conjunct2, THEN conjunct2] c
    by (simp add: f)
  with f a b b2 c show ?thesis by simp
qed

subsection \<open>C7: the size of the pending chunks\<close>

text \<open>
  C7 (the code departs from the claim). The constant \<^verbatim>\<open>MAX_WRITE\<close> comes with the comment
  \<^verbatim>\<open>Don't write more than docker buffer size\<close>, and an enqueue keeps a chunk within
  \<^verbatim>\<open>maxWrite\<close> when it decides whether the data joins the tail chunk. But nothing splits
  the data of one enqueue. The writer was built with \<^verbatim>\<open>maxWrite\<close> 4 and its file is still
  being opened; the five bytes of \<^verbatim>\<open>hello\<close>, enqueued in one call, become one pending chunk
  of five bytes, and when the file is open that chunk is handed to \<^verbatim>\<open>fs.write\<close> whole.
\<close>

theorem oversized_enqueue_is_one_chunk:
  "maxWrite opening_writer = 4 \<and>
   writeUtf8 0 [104, 101, 108, 108, 111] opening_writer (env0 [] []) =
     Return True (opening_writer\<lparr>p_bufs := [[104, 101, 108, 108, 111]], p_len := 5\<rparr>)
       (env0 [] []) \<and>
   fileOpened (Suc (Suc 0)) ''/var/log/app.log'' None 3
       (opening_writer\<lparr>p_bufs := [[104, 101, 108, 108, 111]], p_len := 5\<rparr>) (env0 [] []) =
     Return ()
       (opening_writer
          \<lparr>p_len := 5, fd := 3, file_path := Some ''/var/log/app.log'', p_opening := False,
           p_writing := True, p_writingBuf := [104, 101, 108, 108, 111]\<rparr>)
       ((env0 [] [])
          \<lparr>trace := [Emit EvReady, FsWrite 3 [104, 101, 108, 108, 111] Utf8]\<rparr>)"
  by (simp add: eval_defs example_defs fileOpened_Suc run_ready_Suc actualWrite_Suc)

text \<open>
  The test that keeps a chunk within \<^verbatim>\<open>maxWrite\<close> counts the units of a string, not its
  bytes: on the same writer the two characters U+00E9 U+00E9 join a chunk that holds the
  same two characters, and the chunk of four units is eight bytes in UTF-8.
\<close>

lemma joined_chunk_exceeds_in_bytes:
  "writeUtf8 0 [233, 233] (opening_writer\<lparr>p_bufs := [[233, 233]], p_len := 2\<rparr>) (env0 [] []) =
     Return True (opening_writer\<lparr>p_bufs := [[233, 233, 233, 233]], p_len := 4\<rparr>)
       (env0 [] []) \<and>
   utf8 [233, 233, 233, 233] = [195, 169, 195, 169, 195, 169, 195, 169] \<and>
   maxWrite opening_writer = 4"
  by (simp add: eval_defs example_defs)

text \<open>
  In buffer mode the test reads the size of the tail chunk from \<^verbatim>\<open>_lens\<close>, which
  \<^verbatim>\<open>flushBufferSync\<close> does not keep in step with \<^verbatim>\<open>_bufs\<close>: it puts the chunk in flight back
  in front of \<^verbatim>\<open>_bufs\<close> and leaves \<^verbatim>\<open>_lens\<close> alone. When the blocking write is then refused,
  \<^verbatim>\<open>_bufs\<close> holds a chunk of four bytes and \<^verbatim>\<open>_lens\<close> is empty, and the next byte enqueued
  joins that chunk although \<^verbatim>\<open>maxWrite\<close> is 4: five bytes are submitted in one write.
\<close>

lemma flushBufferSync_leaves_lens_behind:
  "flushBufferSync (Suc 0) stalled_writer (env0 [Fail (SysError ''EAGAIN'')] []) =
     Throw (SysError ''EAGAIN'') (stalled_writer\<lparr>p_bufsB := [[[1, 2, 3, 4]]], p_writingBuf := []\<rparr>)
       ((env0 [Fail (SysError ''EAGAIN'')] [])
          \<lparr>n_writes := 1, trace := [WriteSyncFailed 1 (SysError ''EAGAIN'')]\<rparr>) \<and>
   p_lens (stalled_writer\<lparr>p_bufsB := [[[1, 2, 3, 4]]], p_writingBuf := []\<rparr>) = [] \<and>
   maxWrite stalled_writer = 4 \<and>
   writeBuffer (Suc 0) [5] (stalled_writer\<lparr>p_bufsB := [[[1, 2, 3, 4]]], p_writingBuf := []\<rparr>)
       (env0 [] []) =
     Return True
       (stalled_writer\<lparr>p_len := 5, p_writing := True, p_writingBuf := [1, 2, 3, 4, 5]\<rparr>)
       ((env0 [] [])\<lparr>trace := [FsWrite 1 [1, 2, 3, 4, 5] BufferMode]\<rparr>)"
  by (simp add: eval_defs example_defs flushBufferSync_def actualWriteBuffer_Suc)

text \<open>
  What the enqueue does keep is proved in the section on the dispatch
  (\<open>writeUtf8_chunks_within\<close>, \<open>writeBuffer_chunks_within\<close>): while every pending chunk
  holds at most \<^verbatim>\<open>maxWrite\<close> units, \<^verbatim>\<open>_lens\<close> is in step with \<^verbatim>\<open>_bufs\<close> and the data enqueued is
  itself within \<^verbatim>\<open>maxWrite\<close>, every pending chunk holds at most \<^verbatim>\<open>maxWrite\<close> units after the
  call, whatever it dispatched.
\<close>

end
